theory Spec2Isabelle
  imports Main
begin

section \<open>Strings and regular-expression matching\<close>

text \<open>
  JavaScript strings are modelled as \<^typ>\<open>string\<close>, one \<^typ>\<open>char\<close> per code unit
  (code units below 256). The regular expressions of the controller are all of the shape
  ``literal prefix, then a fixed-length or delimited run'', searched for at the leftmost
  position of the subject, so each is embedded as a matcher tried at one position
  (\<open>m_\<dots>\<close>) and the search over all positions (\<open>search\<close>).
\<close>

text \<open>White space removed by \<^verbatim>\<open>String.prototype.trim\<close>: TAB, LF, VT, FF, CR, SP, NBSP.\<close>

definition is_ws :: "char \<Rightarrow> bool" where
  "is_ws c = (of_char c \<in> {9, 10, 11, 12, 13, 32, 160 :: nat})"

definition trim :: "string \<Rightarrow> string" where
  "trim s = rev (dropWhile is_ws (rev (dropWhile is_ws s)))"

text \<open>The character class \<^verbatim>\<open>[a-zA-Z0-9_-]\<close>.\<close>

definition idchar :: "char \<Rightarrow> bool" where
  "idchar c = (let n = (of_char c :: nat) in
     (97 \<le> n \<and> n \<le> 122) \<or> (65 \<le> n \<and> n \<le> 90) \<or> (48 \<le> n \<and> n \<le> 57)
     \<or> c = CHR ''_'' \<or> c = CHR ''-'')"

text \<open>The group \<^verbatim>\<open>([a-zA-Z0-9_-]{11})\<close> matched at the head of the subject.\<close>

definition take_id :: "string \<Rightarrow> string option" where
  "take_id s = (if 11 \<le> length s \<and> list_all idchar (take 11 s) then Some (take 11 s) else None)"

text \<open>A literal matched at the head of the subject; the rest of the subject is returned.\<close>

fun match_lit :: "string \<Rightarrow> string \<Rightarrow> string option" where
  "match_lit [] s = Some s"
| "match_lit (c # cs) [] = None"
| "match_lit (c # cs) (d # ds) = (if c = d then match_lit cs ds else None)"

text \<open>An unanchored regular expression: the matcher is tried at every position, left to right.\<close>

fun search :: "(string \<Rightarrow> 'a option) \<Rightarrow> string \<Rightarrow> 'a option" where
  "search m [] = m []"
| "search m (c # cs) = (case m (c # cs) of Some r \<Rightarrow> Some r | None \<Rightarrow> search m cs)"

section \<open>extractVideoId\<close>

text \<open>\<^verbatim>\<open>/[?&]v=([a-zA-Z0-9_-]{11})/\<close> at one position.\<close>

definition m_query :: "string \<Rightarrow> string option" where
  "m_query s = (case s of
       [] \<Rightarrow> None
     | c # rest \<Rightarrow>
         if c = CHR ''?'' \<or> c = CHR ''&''
         then (case match_lit ''v='' rest of None \<Rightarrow> None | Some r \<Rightarrow> take_id r)
         else None)"

text \<open>\<^verbatim>\<open>/youtu\.be\/([a-zA-Z0-9_-]{11})/\<close> at one position.\<close>

definition m_short :: "string \<Rightarrow> string option" where
  "m_short s = (case match_lit ''youtu.be/'' s of None \<Rightarrow> None | Some r \<Rightarrow> take_id r)"

text \<open>\<^verbatim>\<open>/youtube\.com\/embed\/([a-zA-Z0-9_-]{11})/\<close> at one position.\<close>

definition m_embed :: "string \<Rightarrow> string option" where
  "m_embed s = (case match_lit ''youtube.com/embed/'' s of None \<Rightarrow> None | Some r \<Rightarrow> take_id r)"

text \<open>\<^verbatim>\<open>/^([a-zA-Z0-9_-]{11})$/\<close>: the whole subject.\<close>

definition m_bare :: "string \<Rightarrow> string option" where
  "m_bare s = (if length s = 11 \<and> list_all idchar s then Some s else None)"

text \<open>
  \<^verbatim>\<open>extractVideoId(url)\<close>: the four matches in the order of the source, each returning its
  first group; \<^verbatim>\<open>null\<close> is \<open>None\<close>.
\<close>

definition extractVideoId :: "string \<Rightarrow> string option" where
  "extractVideoId url0 =
     (let url = trim url0 in
      case search m_query url of Some i \<Rightarrow> Some i | None \<Rightarrow>
      (case search m_short url of Some i \<Rightarrow> Some i | None \<Rightarrow>
      (case search m_embed url of Some i \<Rightarrow> Some i | None \<Rightarrow>
      (case m_bare url of Some i \<Rightarrow> Some i | None \<Rightarrow> None))))"

subsection \<open>The extractor as the specification words it\<close>

text \<open>
  The identifier alphabet, letters, digits, underscore and hyphen, and the white space that
  trimming removes, written out.
\<close>

abbreviation id_alphabet :: string where
  "id_alphabet \<equiv> ''abcdefghijklmnopqrstuvwxyzABCDEFGHIJKLMNOPQRSTUVWXYZ0123456789_-''"

abbreviation white_space :: "char set" where
  "white_space \<equiv> {CHR 0x09, CHR 0x0A, CHR 0x0B, CHR 0x0C, CHR 0x0D, CHR 0x20, CHR 0xA0}"

text \<open>A video identifier: exactly eleven characters of the identifier alphabet.\<close>

definition valid_id :: "string \<Rightarrow> bool" where
  "valid_id i = (length i = 11 \<and> list_all idchar i)"

text \<open>
  The marker \<open>l\<close> (\<^verbatim>\<open>?v=\<close>, \<^verbatim>\<open>&v=\<close>, \<^verbatim>\<open>youtu.be/\<close>, \<^verbatim>\<open>youtube.com/embed/\<close>) stands at
  position \<open>k\<close> of \<open>t\<close> and the eleven characters after it are an identifier.
\<close>

definition occurs :: "string \<Rightarrow> string \<Rightarrow> nat \<Rightarrow> bool" where
  "occurs l t k = (take (length l) (drop k t) = l \<and> valid_id (take 11 (drop (k + length l) t)))"

text \<open>Position \<open>k\<close> is the leftmost one where a marker of \<open>ls\<close> occurs.\<close>

definition first_occ :: "string list \<Rightarrow> string \<Rightarrow> nat \<Rightarrow> bool" where
  "first_occ ls t k = ((\<exists>l \<in> set ls. occurs l t k) \<and> (\<forall>j \<in> {..<k}. \<forall>l \<in> set ls. \<not> occurs l t j))"

text \<open>No marker of \<open>ls\<close> occurs anywhere in \<open>t\<close>.\<close>

definition no_occ :: "string list \<Rightarrow> string \<Rightarrow> bool" where
  "no_occ ls t = (\<forall>k \<in> {..length t}. \<forall>l \<in> set ls. \<not> occurs l t k)"

section \<open>JavaScript values\<close>

text \<open>
  Values read from parsed JSON. A number is kept as its canonical decimal rendering (what
  \<^verbatim>\<open>String(n)\<close> gives; both zeros render as \<open>0\<close>), which is all the controller observes of
  it. An object is the association list of its own properties; \<^verbatim>\<open>undefined\<close> is the \<open>None\<close>
  of the option type.
\<close>

datatype json =
    JNull
  | JBool bool
  | JNum string
  | JStr string
  | JArr "json list"
  | JObj "(string \<times> json) list"

text \<open>
  Thrown values: an error raised by a collaborator (library, child process, HTTP client,
  database) with its message, the engine's \<^verbatim>\<open>TypeError\<close> and \<^verbatim>\<open>SyntaxError\<close>, and
  \<^verbatim>\<open>new Error(message)\<close>.
\<close>

datatype error = ExternalError string | TypeError | SyntaxError | Error string

text \<open>Truthiness, as tested by \<^verbatim>\<open>if (x)\<close>, \<^verbatim>\<open>x && y\<close> and \<^verbatim>\<open>x ? y : z\<close>.\<close>

fun truthy :: "json \<Rightarrow> bool" where
  "truthy JNull = False"
| "truthy (JBool b) = b"
| "truthy (JNum n) = (n \<noteq> ''0'')"
| "truthy (JStr s) = (s \<noteq> [])"
| "truthy (JArr xs) = True"
| "truthy (JObj kvs) = True"

fun truthy_opt :: "json option \<Rightarrow> bool" where
  "truthy_opt None = False"
| "truthy_opt (Some v) = truthy v"

text \<open>
  Property access \<^verbatim>\<open>v.k\<close> for the property names the controller reads (\<^verbatim>\<open>error\<close>,
  \<^verbatim>\<open>success\<close>, \<^verbatim>\<open>transcript\<close>, \<^verbatim>\<open>text\<close>, \<^verbatim>\<open>events\<close>, \<^verbatim>\<open>segs\<close>, \<^verbatim>\<open>utf8\<close>,
  \<^verbatim>\<open>summary\<close>, \<dots>), none of which a built-in prototype defines: reading a property of
  \<^verbatim>\<open>null\<close> throws, an object yields its own property, every other value yields
  \<^verbatim>\<open>undefined\<close>.
\<close>

fun get_prop :: "json \<Rightarrow> string \<Rightarrow> error + json option" where
  "get_prop JNull k = Inl TypeError"
| "get_prop (JObj kvs) k = Inr (map_of kvs k)"
| "get_prop v k = Inr None"

text \<open>\<^verbatim>\<open>Array.prototype.join(sep)\<close> on elements already converted to strings.\<close>

fun array_join :: "string \<Rightarrow> string list \<Rightarrow> string" where
  "array_join sep [] = []"
| "array_join sep [x] = x"
| "array_join sep (x # y # ys) = x @ sep @ array_join sep (y # ys)"

text \<open>
  The conversion to a string, as \<^verbatim>\<open>String(v)\<close>, a template literal, \<^verbatim>\<open>join\<close> and
  \<^verbatim>\<open>new Error(v)\<close> apply it. An object is converted by its \<^verbatim>\<open>toString\<close>: the inherited one
  gives \<^verbatim>\<open>[object Object]\<close>, but an own property of that name, which after \<^verbatim>\<open>JSON.parse\<close>
  is never a function, leaves the conversion without a result and it throws \<^verbatim>\<open>TypeError\<close>.
  An array is converted as by \<^verbatim>\<open>join(',')\<close>, element by element (\<open>toStrings\<close>), where
  \<^verbatim>\<open>null\<close> gives the empty string and the first element that throws aborts the conversion.
\<close>

fun toString :: "json \<Rightarrow> error + string"
  and toStrings :: "json list \<Rightarrow> error + string list" where
  "toString JNull = Inr ''null''"
| "toString (JBool b) = Inr (if b then ''true'' else ''false'')"
| "toString (JNum n) = Inr n"
| "toString (JStr s) = Inr s"
| "toString (JArr xs) =
     (case toStrings xs of Inl e \<Rightarrow> Inl e | Inr ss \<Rightarrow> Inr (array_join '','' ss))"
| "toString (JObj kvs) =
     (if map_of kvs ''toString'' \<noteq> None then Inl TypeError else Inr ''[object Object]'')"
| "toStrings [] = Inr []"
| "toStrings (x # xs) =
     (case (if x = JNull then Inr [] else toString x) of
        Inl e \<Rightarrow> Inl e
      | Inr s \<Rightarrow> (case toStrings xs of Inl e \<Rightarrow> Inl e | Inr ss \<Rightarrow> Inr (s # ss)))"

text \<open>
  The conversion \<^verbatim>\<open>join\<close> applies to an element: \<^verbatim>\<open>undefined\<close> and \<^verbatim>\<open>null\<close> give the
  empty string, anything else is converted and may throw.
\<close>

fun elem_string :: "json option \<Rightarrow> error + string" where
  "elem_string None = Inr []"
| "elem_string (Some JNull) = Inr []"
| "elem_string (Some v) = toString v"

text \<open>
  The message of \<^verbatim>\<open>new Error(v)\<close>: empty for \<^verbatim>\<open>undefined\<close>, \<^verbatim>\<open>String(v)\<close> otherwise, so
  the constructor throws where the conversion does.
\<close>

fun message_of :: "json option \<Rightarrow> error + string" where
  "message_of None = Inr []"
| "message_of (Some v) = toString v"

text \<open>\<^verbatim>\<open>Array.prototype.map\<close> with a callback that may throw: the first throw aborts the map.\<close>

fun map_throw :: "('a \<Rightarrow> error + 'b) \<Rightarrow> 'a list \<Rightarrow> error + 'b list" where
  "map_throw f [] = Inr []"
| "map_throw f (x # xs) =
     (case f x of
        Inl e \<Rightarrow> Inl e
      | Inr y \<Rightarrow> (case map_throw f xs of Inl e \<Rightarrow> Inl e | Inr ys \<Rightarrow> Inr (y # ys)))"

text \<open>\<^verbatim>\<open>Array.prototype.join(sep)\<close> on values: each element is converted, then the strings are joined.\<close>

definition join_values :: "string \<Rightarrow> json option list \<Rightarrow> error + string" where
  "join_values sep vs =
     (case map_throw elem_string vs of Inl e \<Rightarrow> Inl e | Inr ss \<Rightarrow> Inr (array_join sep ss))"

text \<open>
  What \<^verbatim>\<open>reject(new Error(v))\<close> inside a \<^verbatim>\<open>try\<close> whose \<^verbatim>\<open>catch\<close> rejects with what it
  caught ends in: the new error, or the \<^verbatim>\<open>TypeError\<close> of its construction.
\<close>

definition rejection_of :: "json option \<Rightarrow> error" where
  "rejection_of v = (case message_of v of Inl e \<Rightarrow> e | Inr msg \<Rightarrow> Error msg)"

section \<open>Collaborators and the world\<close>

text \<open>What the callback of \<^verbatim>\<open>child_process.exec\<close> receives: \<^verbatim>\<open>(error, stdout, stderr)\<close>.\<close>

record exec_result =
  exec_error :: "error option"
  stdout :: string
  stderr :: string

text \<open>A caption item of the \<^verbatim>\<open>youtube-transcript\<close> library: its text and its timing data.\<close>

datatype 't item = Item (item_text: string) (timing: 't)

text \<open>One invocation of a collaborator, as a call-count assertion on a stub would see it.\<close>

datatype call =
    FetchTranscript string
  | Exec string
  | HttpGet string
  | FindOne string
  | Generate json
  | Save json

text \<open>
  The world a request runs in: the paths that exist in the file system, and the trace of
  collaborator invocations so far.
\<close>

record world =
  files :: "string set"
  calls :: "call list"

text \<open>
  The collaborators, as stubs: \<^verbatim>\<open>__dirname\<close> and \<^verbatim>\<open>path.join\<close>, \<^verbatim>\<open>JSON.parse\<close>
  (\<open>None\<close> when it throws), the caption library (\<open>Inr None\<close> when it resolves to
  \<^verbatim>\<open>null\<close> or \<^verbatim>\<open>undefined\<close>), \<^verbatim>\<open>child_process.exec\<close> (which reads and changes the file
  system), \<^verbatim>\<open>axios.get\<close> (the \<^verbatim>\<open>data\<close> of the response), the \<^verbatim>\<open>Video\<close> model, the clock,
  and \<^verbatim>\<open>generateLearningContent\<close>, whose body calls the language-model API and which the
  properties below never reach.
\<close>

record 't env =
  dirname :: string
  path_join :: "string \<Rightarrow> string \<Rightarrow> string"
  JSON_parse :: "string \<Rightarrow> json option"
  fetchTranscript :: "string \<Rightarrow> error + 't item list option"
  exec :: "string \<Rightarrow> string set \<Rightarrow> exec_result \<times> string set"
  axios_get :: "string \<Rightarrow> error + json"
  Video_findOne :: "string \<Rightarrow> error + json option"
  Video_save :: "json \<Rightarrow> error + json"
  generateLearningContent :: "json \<Rightarrow> error + json"
  now :: string

definition existsSync :: "world \<Rightarrow> string \<Rightarrow> bool" where
  "existsSync w p = (p \<in> files w)"

definition unlinkSync :: "world \<Rightarrow> string \<Rightarrow> world" where
  "unlinkSync w p = w\<lparr>files := files w - {p}\<rparr>"

definition exec_call :: "'t env \<Rightarrow> string \<Rightarrow> world \<Rightarrow> exec_result \<times> world" where
  "exec_call env cmd w =
     (case exec env cmd (files w) of
        (r, fs) \<Rightarrow> (r, w\<lparr>files := fs, calls := calls w @ [Exec cmd]\<rparr>))"

definition fetch_call :: "'t env \<Rightarrow> string \<Rightarrow> world \<Rightarrow> (error + 't item list option) \<times> world" where
  "fetch_call env videoId w = (fetchTranscript env videoId, w\<lparr>calls := calls w @ [FetchTranscript videoId]\<rparr>)"

definition get_call :: "'t env \<Rightarrow> string \<Rightarrow> world \<Rightarrow> (error + json) \<times> world" where
  "get_call env url w = (axios_get env url, w\<lparr>calls := calls w @ [HttpGet url]\<rparr>)"

definition findOne_call :: "'t env \<Rightarrow> string \<Rightarrow> world \<Rightarrow> (error + json option) \<times> world" where
  "findOne_call env videoId w = (Video_findOne env videoId, w\<lparr>calls := calls w @ [FindOne videoId]\<rparr>)"

definition generate_call :: "'t env \<Rightarrow> json \<Rightarrow> world \<Rightarrow> (error + json) \<times> world" where
  "generate_call env transcript w =
     (generateLearningContent env transcript, w\<lparr>calls := calls w @ [Generate transcript]\<rparr>)"

definition save_call :: "'t env \<Rightarrow> json \<Rightarrow> world \<Rightarrow> (error + json) \<times> world" where
  "save_call env doc w = (Video_save env doc, w\<lparr>calls := calls w @ [Save doc]\<rparr>)"

text \<open>The double quote and the backslash, which the command lines and patterns contain.\<close>

definition dq :: string where
  "dq = [CHR 0x22]"

definition bs :: string where
  "bs = [CHR 0x5C]"

section \<open>transcribeAudio\<close>

definition videoUrl :: "string \<Rightarrow> string" where
  "videoUrl videoId = ''https://www.youtube.com/watch?v='' @ videoId"

definition tempBasePath :: "'t env \<Rightarrow> string \<Rightarrow> string" where
  "tempBasePath env videoId = path_join env (dirname env) (''../temp_'' @ videoId)"

definition expectedAudioFile :: "'t env \<Rightarrow> string \<Rightarrow> string" where
  "expectedAudioFile env videoId = tempBasePath env videoId @ ''.mp3''"

text \<open>\<^verbatim>\<open>if (fs.existsSync(expectedAudioFile)) fs.unlinkSync(expectedAudioFile);\<close>\<close>

definition cleanup :: "'t env \<Rightarrow> string \<Rightarrow> world \<Rightarrow> world" where
  "cleanup env videoId w =
     (if existsSync w (expectedAudioFile env videoId)
      then unlinkSync w (expectedAudioFile env videoId) else w)"

definition download_command :: "'t env \<Rightarrow> string \<Rightarrow> string" where
  "download_command env videoId =
     dq @ path_join env (dirname env) ''../venv/bin/yt-dlp'' @ dq
     @ '' -x --audio-format mp3 -o '' @ dq @ tempBasePath env videoId @ ''.%(ext)s'' @ dq
     @ '' '' @ videoUrl videoId"

definition whisper_command :: "'t env \<Rightarrow> string \<Rightarrow> string" where
  "whisper_command env videoId =
     dq @ path_join env (dirname env) ''../venv/bin/python'' @ dq
     @ '' '' @ dq @ path_join env (dirname env) ''../scripts/transcribe_audio.py'' @ dq
     @ '' '' @ dq @ expectedAudioFile env videoId @ dq"

text \<open>
  The \<^verbatim>\<open>try\<close> block of the transcription callback: parse the output, reject on an
  \<^verbatim>\<open>error\<close> property, otherwise join the \<^verbatim>\<open>text\<close> of the segments with single spaces.
  Whatever is thrown inside is what the promise is rejected with.
\<close>

definition parse_segments :: "'t env \<Rightarrow> string \<Rightarrow> error + string" where
  "parse_segments env out =
     (case JSON_parse env out of
        None \<Rightarrow> Inl SyntaxError
      | Some segments \<Rightarrow>
          (case get_prop segments ''error'' of
             Inl e \<Rightarrow> Inl e
           | Inr err \<Rightarrow>
               if truthy_opt err then Inl (rejection_of err)
               else (case segments of
                       JArr xs \<Rightarrow>
                         (case map_throw (\<lambda>s. get_prop s ''text'') xs of
                            Inl e \<Rightarrow> Inl e
                          | Inr ts \<Rightarrow> join_values '' '' ts)
                     | _ \<Rightarrow> Inl TypeError)))"

definition transcribeAudio :: "'t env \<Rightarrow> string \<Rightarrow> world \<Rightarrow> (error + string) \<times> world" where
  "transcribeAudio env videoId w0 =
     (let w1 = cleanup env videoId w0;
          (r, w2) = exec_call env (download_command env videoId) w1;
          downloaded =
            (case exec_error r of
               Some e \<Rightarrow> Inl e
             | None \<Rightarrow>
                 if \<not> existsSync w2 (expectedAudioFile env videoId)
                 then Inl (Error ''Audio file not created after yt-dlp run'')
                 else Inr ())
      in case downloaded of
           Inl err \<Rightarrow> (Inl err, cleanup env videoId w2)
         | Inr _ \<Rightarrow>
             (let (r2, w3) = exec_call env (whisper_command env videoId) w2;
                  w4 = cleanup env videoId w3
              in case exec_error r2 of
                   Some e \<Rightarrow> (Inl e, w4)
                 | None \<Rightarrow> (parse_segments env (stdout r2), w4)))"

section \<open>getTranscript\<close>

text \<open>
  How one \<^verbatim>\<open>try\<close> block of \<^verbatim>\<open>getTranscript\<close> ends: it returns a transcript, it throws
  and the \<^verbatim>\<open>catch\<close> logs the error, or it falls through without either.
\<close>

datatype attempt = is_Returned: Returned json | Caught error | Continue

text \<open>Method 1: the \<^verbatim>\<open>youtube-transcript\<close> package.\<close>

definition method1 :: "'t env \<Rightarrow> string \<Rightarrow> world \<Rightarrow> attempt \<times> world" where
  "method1 env videoId w =
     (let (res, w1) = fetch_call env videoId w in
      case res of
        Inl e \<Rightarrow> (Caught e, w1)
      | Inr None \<Rightarrow> (Continue, w1)
      | Inr (Some transcriptItems) \<Rightarrow>
          if length transcriptItems > 0
          then (Returned (JStr (array_join '' '' (map item_text transcriptItems))), w1)
          else (Continue, w1))"

text \<open>
  Method 2, the handling of a script's output (the same for both interpreters): parse it,
  resolve with \<^verbatim>\<open>transcript\<close> when \<^verbatim>\<open>success\<close> is truthy, reject with
  \<^verbatim>\<open>new Error(error)\<close> otherwise.
\<close>

definition script_result :: "'t env \<Rightarrow> string \<Rightarrow> error + json option" where
  "script_result env out =
     (case JSON_parse env out of
        None \<Rightarrow> Inl SyntaxError
      | Some result \<Rightarrow>
          (case get_prop result ''success'' of
             Inl e \<Rightarrow> Inl e
           | Inr success \<Rightarrow>
               if truthy_opt success then get_prop result ''transcript''
               else (case get_prop result ''error'' of
                       Inl e \<Rightarrow> Inl e
                     | Inr err \<Rightarrow> Inl (rejection_of err))))"

definition primary_command :: "'t env \<Rightarrow> string \<Rightarrow> string" where
  "primary_command env videoId =
     dq @ path_join env (dirname env) ''../venv/bin/python'' @ dq
     @ '' '' @ dq @ path_join env (dirname env) ''../scripts/fetch_transcript.py'' @ dq
     @ '' '' @ videoId"

definition secondary_command :: "'t env \<Rightarrow> string \<Rightarrow> string" where
  "secondary_command env videoId =
     ''python3 '' @ dq @ path_join env (dirname env) ''../scripts/fetch_transcript.py'' @ dq
     @ '' '' @ videoId"

text \<open>
  The template literal of the log line of method 2, which holds \<^verbatim>\<open>transcript.length\<close>:
  reading the property throws on \<^verbatim>\<open>undefined\<close> and \<^verbatim>\<open>null\<close>; a string and an array have a
  number there, a number and a boolean have \<^verbatim>\<open>undefined\<close>, and neither conversion throws;
  an object has its own property \<^verbatim>\<open>length\<close>, if any, whose conversion may throw.
\<close>

definition log_length :: "json option \<Rightarrow> error + unit" where
  "log_length transcript =
     (case transcript of
        None \<Rightarrow> Inl TypeError
      | Some JNull \<Rightarrow> Inl TypeError
      | Some (JObj kvs) \<Rightarrow>
          (case map_of kvs ''length'' of
             None \<Rightarrow> Inr ()
           | Some l \<Rightarrow> (case toString l of Inl e \<Rightarrow> Inl e | Inr s \<Rightarrow> Inr ()))
      | Some _ \<Rightarrow> Inr ())"

text \<open>
  Method 2, once the promise has settled: a rejection is caught; after a resolution the
  log line is written, and what that throws is caught too; otherwise the transcript is
  returned.
\<close>

definition await_transcript :: "error + json option \<Rightarrow> attempt" where
  "await_transcript settled =
     (case settled of
        Inl e \<Rightarrow> Caught e
      | Inr transcript \<Rightarrow>
          (case log_length transcript of
             Inl e \<Rightarrow> Caught e
           | Inr _ \<Rightarrow> (case transcript of None \<Rightarrow> Caught TypeError | Some t \<Rightarrow> Returned t)))"

text \<open>
  Method 2: the Python script under the interpreter of the virtual environment, and under
  the global \<^verbatim>\<open>python3\<close> when that subprocess ends with an error; then the rejection is
  the error of the first subprocess.
\<close>

definition method2 :: "'t env \<Rightarrow> string \<Rightarrow> world \<Rightarrow> attempt \<times> world" where
  "method2 env videoId w =
     (let (r, w1) = exec_call env (primary_command env videoId) w;
          (settled, w2) =
            (case exec_error r of
               Some error \<Rightarrow>
                 (let (r2, w2) = exec_call env (secondary_command env videoId) w1 in
                  case exec_error r2 of
                    Some err2 \<Rightarrow> (Inl error, w2)
                  | None \<Rightarrow> (script_result env (stdout r2), w2))
             | None \<Rightarrow> (script_result env (stdout r), w1))
      in (await_transcript settled, w2))"

text \<open>
  Method 3. The pattern
  \<^verbatim>\<open>/"baseUrl":"(https:\/\/www\.youtube\.com\/api\/timedtext[^"]+)"/\<close> at one position: the
  literal, a non-empty run of characters other than the double quote, and a double quote.
\<close>

definition m_caption :: "string \<Rightarrow> string option" where
  "m_caption s =
     (case match_lit (dq @ ''baseUrl'' @ dq @ '':'' @ dq @ ''https://www.youtube.com/api/timedtext'') s of
        None \<Rightarrow> None
      | Some r \<Rightarrow>
          (let run = takeWhile (\<lambda>c. [c] \<noteq> dq) r; rest = dropWhile (\<lambda>c. [c] \<noteq> dq) r in
           if run \<noteq> [] \<and> rest \<noteq> [] then Some (''https://www.youtube.com/api/timedtext'' @ run)
           else None))"

text \<open>\<^verbatim>\<open>.replace(/\\u0026/g, '&')\<close>: every backslash followed by \<^verbatim>\<open>u0026\<close> becomes an ampersand.\<close>

fun unescape_amp :: "string \<Rightarrow> string" where
  "unescape_amp (a # b # c # d # e # f # rest) =
     (if [a] = bs \<and> [b, c, d, e, f] = ''u0026''
      then CHR ''&'' # unescape_amp rest
      else a # unescape_amp (b # c # d # e # f # rest))"
| "unescape_amp s = s"

text \<open>\<^verbatim>\<open>e => (e.segs ? e.segs.map(s => s.utf8).join('') : '')\<close>\<close>

definition event_text :: "json \<Rightarrow> error + string" where
  "event_text e =
     (case get_prop e ''segs'' of
        Inl err \<Rightarrow> Inl err
      | Inr segs \<Rightarrow>
          if truthy_opt segs
          then (case segs of
                  Some (JArr ss) \<Rightarrow>
                    (case map_throw (\<lambda>s. get_prop s ''utf8'') ss of
                       Inl err \<Rightarrow> Inl err
                     | Inr us \<Rightarrow> join_values [] us)
                | _ \<Rightarrow> Inl TypeError)
          else Inr [])"

definition method3 :: "'t env \<Rightarrow> string \<Rightarrow> world \<Rightarrow> attempt \<times> world" where
  "method3 env videoId w =
     (let (response, w1) = get_call env (videoUrl videoId) w in
      case response of
        Inl e \<Rightarrow> (Caught e, w1)
      | Inr (JStr html) \<Rightarrow>
          (case search m_caption html of
             None \<Rightarrow> (Continue, w1)
           | Some captionMatch \<Rightarrow>
               (let captionUrl = unescape_amp captionMatch @ ''&fmt=json3'';
                    (captionResponse, w2) = get_call env captionUrl w1
                in case captionResponse of
                     Inl e \<Rightarrow> (Caught e, w2)
                   | Inr data \<Rightarrow>
                       if truthy data
                       then (case get_prop data ''events'' of
                               Inl e \<Rightarrow> (Caught e, w2)
                             | Inr events \<Rightarrow>
                                 if truthy_opt events
                                 then (case events of
                                         Some (JArr es) \<Rightarrow>
                                           (case map_throw event_text es of
                                              Inl e \<Rightarrow> (Caught e, w2)
                                            | Inr ts \<Rightarrow> (Returned (JStr (array_join '' '' ts)), w2))
                                       | _ \<Rightarrow> (Caught TypeError, w2))
                                 else (Continue, w2))
                       else (Continue, w2)))
      | Inr _ \<Rightarrow> (Caught TypeError, w1))"

text \<open>
  \<^verbatim>\<open>getTranscript(videoId)\<close>: the four \<^verbatim>\<open>try\<close> blocks in order. A block that does not
  return hands the world on to the next; after the fourth the fixed error is thrown.
\<close>

definition getTranscript :: "'t env \<Rightarrow> string \<Rightarrow> world \<Rightarrow> (error + json) \<times> world" where
  "getTranscript env videoId w =
     (case method1 env videoId w of
        (Returned t, w1) \<Rightarrow> (Inr t, w1)
      | (_, w1) \<Rightarrow>
     (case method2 env videoId w1 of
        (Returned t, w2) \<Rightarrow> (Inr t, w2)
      | (_, w2) \<Rightarrow>
     (case method3 env videoId w2 of
        (Returned t, w3) \<Rightarrow> (Inr t, w3)
      | (_, w3) \<Rightarrow>
     (case transcribeAudio env videoId w3 of
        (Inr t, w4) \<Rightarrow> (Inr (JStr t), w4)
      | (Inl err, w4) \<Rightarrow> (Inl (Error ''Could not fetch transcript from any source''), w4)))))"

section \<open>processVideo\<close>

text \<open>
  What the handler sends: the status and the JSON body. The body
  \<^verbatim>\<open>{ error: error.message }\<close> of the outer \<^verbatim>\<open>catch\<close> is kept as the error it was built from.
\<close>

datatype body = Json json | ErrorMessageOf error

record response =
  status :: nat
  body :: body

definition DEMO_MODE :: bool where
  "DEMO_MODE = True"

definition quiz :: "string \<Rightarrow> string list \<Rightarrow> string \<Rightarrow> json" where
  "quiz q opts answer =
     JObj [(''question'', JStr q), (''options'', JArr (map JStr opts)), (''correctAnswer'', JStr answer)]"

definition demoKeyPoints :: json where
  "demoKeyPoints = JArr (map JStr
     [''Python variables and data types'',
      ''Control flow with if-else and loops'',
      ''Defining and using functions'',
      ''Object-oriented programming basics'',
      ''Working with lists and dictionaries''])"

definition demoQuizQuestions :: json where
  "demoQuizQuestions = JArr
     [quiz ''What is the correct way to declare a variable in Python?''
        [''var x = 5'', ''int x = 5'', ''x = 5'', ''declare x = 5''] ''x = 5'',
      quiz ''Which of these is a mutable data type in Python?''
        [''tuple'', ''string'', ''list'', ''integer''] ''list'',
      quiz ''What keyword is used to define a function in Python?''
        [''function'', ''def'', ''func'', ''define''] ''def'',
      quiz ''Which method is used to add an element to a list?''
        [''add()'', ''append()'', ''insert()'', ''push()''] ''append()'',
      quiz ''What is the output of: print(type([1, 2, 3]))?''
        [''<class 'tuple'>'', ''<class 'list'>'', ''<class 'array'>'', ''<class 'dict'>'']
        ''<class 'list'>'',
      quiz ''How do you create a dictionary in Python?''
        [''dict = []'', ''dict = ()'', ''dict = {}'', ''dict = <>''] ''dict = {}'',
      quiz ''What does the 'self' parameter represent in a class method?''
        [''The class itself'', ''The method name'', ''The instance of the class'', ''A static variable'']
        ''The instance of the class'',
      quiz ''Which operator is used for exponentiation in Python?''
        [''^'', ''**'', ''pow'', ''exp''] ''**'',
      quiz ''What will 'len([1, 2, 3, 4, 5])' return?''
        [''4'', ''5'', ''6'', ''Error''] ''5'',
      quiz ''How do you start a comment in Python?''
        [''//'', ''/*'', ''#'', ''--''] ''#'']"

text \<open>The object \<^verbatim>\<open>demoContent\<close>; \<^verbatim>\<open>createdAt\<close> is the clock's reading.\<close>

definition demoContent :: "'t env \<Rightarrow> string \<Rightarrow> string \<Rightarrow> json" where
  "demoContent env youtubeUrl videoId = JObj
     [(''youtubeUrl'', JStr youtubeUrl),
      (''videoId'', JStr videoId),
      (''transcript'', JStr ''This is a demonstration transcript about Python programming fundamentals including variables, data types, functions, and object-oriented programming concepts.''),
      (''summary'', JStr ''This video covers essential Python programming concepts. It introduces core fundamentals like variables, data types (strings, integers, lists, dictionaries), control flow statements (if-else, loops), functions, and object-oriented programming principles. Perfect for beginners learning Python.''),
      (''keyPoints'', demoKeyPoints),
      (''quizQuestions'', demoQuizQuestions),
      (''createdAt'', JStr (now env))]"

text \<open>A property of an object literal; one whose value is \<^verbatim>\<open>undefined\<close> is not serialised.\<close>

fun field :: "string \<Rightarrow> json option \<Rightarrow> (string \<times> json) list" where
  "field k None = []"
| "field k (Some v) = [(k, v)]"

text \<open>\<^verbatim>\<open>v || []\<close>\<close>

definition or_empty :: "json option \<Rightarrow> json" where
  "or_empty v = (case v of Some x \<Rightarrow> (if truthy x then x else JArr []) | None \<Rightarrow> JArr [])"

definition send :: "nat \<Rightarrow> json \<Rightarrow> response" where
  "send code doc = \<lparr>status = code, body = Json doc\<rparr>"

definition fail :: "error \<Rightarrow> response" where
  "fail e = \<lparr>status = 500, body = ErrorMessageOf e\<rparr>"

text \<open>
  The part of the handler after the demo branch. First the tail: transcript, content
  generation, persistence.
\<close>

definition generate_and_save :: "'t env \<Rightarrow> string \<Rightarrow> string \<Rightarrow> world \<Rightarrow> response \<times> world" where
  "generate_and_save env youtubeUrl videoId w1 =
     (case getTranscript env videoId w1 of
        (Inl e, w2) \<Rightarrow> (fail e, w2)
      | (Inr transcript, w2) \<Rightarrow>
     (case generate_call env transcript w2 of
        (Inl e, w3) \<Rightarrow> (fail e, w3)
      | (Inr content, w3) \<Rightarrow>
     (case (get_prop content ''summary'', get_prop content ''keyPoints'',
            get_prop content ''quizQuestions'') of
        (Inr summary, Inr keyPoints, Inr quizQuestions) \<Rightarrow>
          (let videoObj = JObj
                 ([(''youtubeUrl'', JStr youtubeUrl), (''videoId'', JStr videoId),
                   (''transcript'', transcript)]
                  @ field ''summary'' summary
                  @ [(''keyPoints'', or_empty keyPoints),
                     (''quizQuestions'', or_empty quizQuestions),
                     (''createdAt'', JStr (now env))])
           in case save_call env videoObj w3 of
                (Inl dbErr, w4) \<Rightarrow> (send 200 videoObj, w4)
              | (Inr video, w4) \<Rightarrow> (send 200 video, w4))
      | _ \<Rightarrow> (fail TypeError, w3))))"

text \<open>The cache check in front of it; a failing lookup counts as a miss.\<close>

definition process_uncached :: "'t env \<Rightarrow> string \<Rightarrow> string \<Rightarrow> world \<Rightarrow> response \<times> world" where
  "process_uncached env youtubeUrl videoId w =
     (let (found, w1) = findOne_call env videoId w;
          cached = (case found of Inl dbErr \<Rightarrow> None | Inr c \<Rightarrow> c)
      in case cached of
           None \<Rightarrow> generate_and_save env youtubeUrl videoId w1
         | Some doc \<Rightarrow>
             if truthy doc then (send 200 doc, w1)
             else generate_and_save env youtubeUrl videoId w1)"

text \<open>
  \<^verbatim>\<open>exports.processVideo\<close>, on the parsed request body. A \<^verbatim>\<open>youtubeUrl\<close> that is truthy
  but not a string has no \<^verbatim>\<open>trim\<close>, and the \<^verbatim>\<open>TypeError\<close> reaches the outer \<^verbatim>\<open>catch\<close>.
\<close>

definition processVideo :: "'t env \<Rightarrow> json \<Rightarrow> world \<Rightarrow> response \<times> world" where
  "processVideo env req_body w =
     (case get_prop req_body ''youtubeUrl'' of
        Inl e \<Rightarrow> (fail e, w)
      | Inr youtubeUrl \<Rightarrow>
          if \<not> truthy_opt youtubeUrl
          then (send 400 (JObj [(''error'', JStr ''YouTube URL is required'')]), w)
          else (case youtubeUrl of
                  Some (JStr url) \<Rightarrow>
                    (case extractVideoId url of
                       None \<Rightarrow> (send 400 (JObj [(''error'', JStr ''Invalid YouTube URL'')]), w)
                     | Some videoId \<Rightarrow>
                         if videoId = []
                         then (send 400 (JObj [(''error'', JStr ''Invalid YouTube URL'')]), w)
                         else if DEMO_MODE
                         then (send 200 (demoContent env url videoId), w)
                         else process_uncached env url videoId w)
                | _ \<Rightarrow> (fail TypeError, w)))"

section \<open>Notions of the specification\<close>

text \<open>
  A value that converts to a string: it holds no object with an own property
  \<^verbatim>\<open>toString\<close>, neither itself nor inside arrays.
\<close>

fun stringable :: "json \<Rightarrow> bool" where
  "stringable (JObj kvs) = (map_of kvs ''toString'' = None)"
| "stringable (JArr xs) = list_all stringable xs"
| "stringable v = True"

text \<open>
  A transcript whose length can be written to the log: it is not \<^verbatim>\<open>null\<close>, and if it is
  an object with a property \<^verbatim>\<open>length\<close>, that property converts to a string. Every text is
  one, the empty text too.
\<close>

definition loggable :: "json \<Rightarrow> bool" where
  "loggable v =
     (case v of
        JNull \<Rightarrow> False
      | JObj kvs \<Rightarrow> (case map_of kvs ''length'' of None \<Rightarrow> True | Some l \<Rightarrow> stringable l)
      | _ \<Rightarrow> True)"

text \<open>
  A script's output counts as a success of method 2: it parses to a value with a truthy
  \<^verbatim>\<open>success\<close> property and a \<^verbatim>\<open>transcript\<close> that is not \<^verbatim>\<open>undefined\<close> and whose length
  can be written to the log.
\<close>

definition script_success :: "'t env \<Rightarrow> string \<Rightarrow> json option" where
  "script_success env out =
     (case JSON_parse env out of
        None \<Rightarrow> None
      | Some result \<Rightarrow>
          (case (get_prop result ''success'', get_prop result ''transcript'') of
             (Inr s, Inr (Some v)) \<Rightarrow> if truthy_opt s \<and> loggable v then Some v else None
           | _ \<Rightarrow> None))"

text \<open>The parsed output carries an \<^verbatim>\<open>error\<close> field that counts (a truthy one).\<close>

definition has_error :: "json \<Rightarrow> bool" where
  "has_error v = (case get_prop v ''error'' of Inl e \<Rightarrow> False | Inr x \<Rightarrow> truthy_opt x)"

text \<open>
  An element of the parsed output that can be a segment: it is not \<^verbatim>\<open>null\<close>, and its
  \<^verbatim>\<open>text\<close>, if it has one, converts to a string.
\<close>

definition segment_ok :: "json \<Rightarrow> bool" where
  "segment_ok x =
     (x \<noteq> JNull \<and> (case get_prop x ''text'' of Inr (Some t) \<Rightarrow> stringable t | _ \<Rightarrow> True))"

text \<open>The parsed output is an array of such elements.\<close>

definition segment_array :: "json \<Rightarrow> bool" where
  "segment_array v = (case v of JArr xs \<Rightarrow> list_all segment_ok xs | _ \<Rightarrow> False)"

text \<open>
  A transcribed segment with text \<open>t\<close>, a timed-text segment with text \<open>u\<close> and a
  timed-text event with segments \<open>us\<close>; \<open>extra\<close> stands for the timing metadata and
  whatever else the object carries.
\<close>

definition segment_json :: "string \<times> (string \<times> json) list \<Rightarrow> json" where
  "segment_json s = JObj ((''text'', JStr (fst s)) # snd s)"

definition seg_json :: "string \<times> (string \<times> json) list \<Rightarrow> json" where
  "seg_json s = JObj ((''utf8'', JStr (fst s)) # snd s)"

definition event_json :: "(string \<times> (string \<times> json) list) list \<times> (string \<times> json) list \<Rightarrow> json" where
  "event_json e = JObj ((''segs'', JArr (map seg_json (fst e))) # snd e)"

section \<open>Stubs for concrete runs\<close>

text \<open>A world with no files and no calls yet.\<close>

definition w0 :: world where
  "w0 = \<lparr>files = {}, calls = []\<rparr>"

text \<open>A subprocess that ends without error and prints \<open>out\<close>.\<close>

definition prints :: "string \<Rightarrow> exec_result" where
  "prints out = \<lparr>exec_error = None, stdout = out, stderr = []\<rparr>"

text \<open>A subprocess that ends with the error \<open>msg\<close>.\<close>

definition dies :: "string \<Rightarrow> exec_result" where
  "dies msg = \<lparr>exec_error = Some (ExternalError msg), stdout = [], stderr = msg\<rparr>"

text \<open>
  Every collaborator fails: the library throws, every subprocess ends with an error and
  leaves the file system alone, every request fails, nothing parses.
\<close>

definition failing_env :: "nat env" where
  "failing_env =
     \<lparr>dirname = ''/app/controllers'',
      path_join = (\<lambda>a b. a @ ''/'' @ b),
      JSON_parse = (\<lambda>s. None),
      fetchTranscript = (\<lambda>v. Inl (ExternalError ''Transcript is disabled'')),
      exec = (\<lambda>cmd fs. (dies ''Command failed'', fs)),
      axios_get = (\<lambda>u. Inl (ExternalError ''Network Error'')),
      Video_findOne = (\<lambda>v. Inr None),
      Video_save = (\<lambda>d. Inr d),
      generateLearningContent = (\<lambda>t. Inl (ExternalError ''no API key'')),
      now = ''2024-01-01T00:00:00.000Z''\<rparr>"

text \<open>
  The downloader writes the audio file of \<^verbatim>\<open>dQw4w9WgXcQ\<close>, every subprocess ends without
  error and prints an empty JSON array, which is all that parses; the library and the
  requests fail as before.
\<close>

definition silent_env :: "nat env" where
  "silent_env = failing_env
     \<lparr>JSON_parse := (\<lambda>s. if s = ''[]'' then Some (JArr []) else None),
      exec := (\<lambda>cmd fs. (prints ''[]'', insert ''/app/controllers/../temp_dQw4w9WgXcQ.mp3'' fs))\<rparr>"

text \<open>Both interpreters end with an error, each with its own.\<close>

definition two_errors_env :: "nat env" where
  "two_errors_env = failing_env
     \<lparr>exec := (\<lambda>cmd fs. (if take 7 cmd = ''python3'' then dies ''python3: not found''
                          else dies ''venv python: exit 1'', fs))\<rparr>"

text \<open>
  The script reports success with an empty transcript:
  \<^verbatim>\<open>{"success": true, "transcript": ""}\<close>.
\<close>

definition empty_transcript_output :: string where
  "empty_transcript_output =
     ''{'' @ dq @ ''success'' @ dq @ '': true, '' @ dq @ ''transcript'' @ dq @ '': '' @ dq @ dq @ ''}''"

definition empty_script_env :: "nat env" where
  "empty_script_env = failing_env
     \<lparr>JSON_parse := (\<lambda>s. if s = empty_transcript_output
                          then Some (JObj [(''success'', JBool True), (''transcript'', JStr [])])
                          else None),
      exec := (\<lambda>cmd fs. (prints empty_transcript_output, fs))\<rparr>"

text \<open>
  The watch page names a caption track, and the track has one event of two segments,
  \<^verbatim>\<open>Hel\<close> and \<^verbatim>\<open>lo\<close>; the library and the subprocesses fail.
\<close>

definition watch_page :: string where
  "watch_page =
     ''<script>{'' @ dq @ ''baseUrl'' @ dq @ '':'' @ dq
     @ ''https://www.youtube.com/api/timedtext?v=dQw4w9WgXcQ'' @ bs @ ''u0026lang=en'' @ dq
     @ ''}</script>''"

definition caption_env :: "nat env" where
  "caption_env = failing_env
     \<lparr>axios_get := (\<lambda>u.
        if u = ''https://www.youtube.com/watch?v=dQw4w9WgXcQ'' then Inr (JStr watch_page)
        else if u = ''https://www.youtube.com/api/timedtext?v=dQw4w9WgXcQ&lang=en&fmt=json3''
        then Inr (JObj [(''events'',
               JArr [event_json ([(''Hel'', [(''tOffsetMs'', JNum ''0'')]), (''lo'', [])],
                                 [(''tStartMs'', JNum ''120'')])])])
        else Inl (ExternalError ''Network Error''))\<rparr>"

text \<open>
  The downloader writes the audio file of \<^verbatim>\<open>dQw4w9WgXcQ\<close> and the speech-to-text script
  prints two segments: \<^verbatim>\<open>[{"text": "Hello", "start": 0}, {"text": "world"}]\<close>.
\<close>

definition segments_output :: string where
  "segments_output =
     ''[{'' @ dq @ ''text'' @ dq @ '': '' @ dq @ ''Hello'' @ dq @ '', '' @ dq @ ''start'' @ dq @ '': 0}, {''
     @ dq @ ''text'' @ dq @ '': '' @ dq @ ''world'' @ dq @ ''}]''"

definition whisper_env :: "nat env" where
  "whisper_env = failing_env
     \<lparr>JSON_parse := (\<lambda>s. if s = segments_output
                          then Some (JArr [segment_json (''Hello'', [(''start'', JNum ''0'')]),
                                           segment_json (''world'', [])])
                          else None),
      exec := (\<lambda>cmd fs. (prints segments_output, insert ''/app/controllers/../temp_dQw4w9WgXcQ.mp3'' fs))\<rparr>"

text \<open>
  The script reports success with a transcript that is no text but an object whose
  \<^verbatim>\<open>length\<close> does not convert to a string:
  \<^verbatim>\<open>{"success": true, "transcript": {"length": {"toString": 0}}}\<close>.
\<close>

definition odd_length_output :: string where
  "odd_length_output =
     ''{'' @ dq @ ''success'' @ dq @ '': true, '' @ dq @ ''transcript'' @ dq @ '': {''
     @ dq @ ''length'' @ dq @ '': {'' @ dq @ ''toString'' @ dq @ '': 0}}}''"

definition odd_length_env :: "nat env" where
  "odd_length_env = failing_env
     \<lparr>JSON_parse := (\<lambda>s. if s = odd_length_output
                          then Some (JObj [(''success'', JBool True),
                                           (''transcript'',
                                            JObj [(''length'', JObj [(''toString'', JNum ''0'')])])])
                          else None),
      exec := (\<lambda>cmd fs. (prints odd_length_output, fs))\<rparr>"

text \<open>
  The downloader writes the audio file of \<^verbatim>\<open>dQw4w9WgXcQ\<close> and the speech-to-text script
  prints one segment whose text does not convert to a string:
  \<^verbatim>\<open>[{"text": {"toString": 1}}]\<close>.
\<close>

definition odd_text_output :: string where
  "odd_text_output =
     ''[{'' @ dq @ ''text'' @ dq @ '': {'' @ dq @ ''toString'' @ dq @ '': 1}}]''"

definition odd_text_env :: "nat env" where
  "odd_text_env = failing_env
     \<lparr>JSON_parse := (\<lambda>s. if s = odd_text_output
                          then Some (JArr [JObj [(''text'', JObj [(''toString'', JNum ''1'')])]])
                          else None),
      exec := (\<lambda>cmd fs. (prints odd_text_output, insert ''/app/controllers/../temp_dQw4w9WgXcQ.mp3'' fs))\<rparr>"

section \<open>Properties of the matchers\<close>

lemma match_lit_eq: "match_lit l s = (if take (length l) s = l then Some (drop (length l) s) else None)"
  by (induction l s rule: match_lit.induct) auto

lemma take_id_eq: "take_id s = (if valid_id (take 11 s) then Some (take 11 s) else None)"
  by (auto simp: take_id_def valid_id_def)

lemma search_None_iff: "search m s = None \<longleftrightarrow> (\<forall>k\<le>length s. m (drop k s) = None)"
proof (induction s)
  case Nil
  then show ?case by simp
next
  case (Cons c cs)
  have "(\<forall>k\<le>length (c # cs). m (drop k (c # cs)) = None)
      \<longleftrightarrow> m (c # cs) = None \<and> (\<forall>k\<le>length cs. m (drop k cs) = None)"
  proof (intro iffI conjI allI impI)
    assume a: "\<forall>k\<le>length (c # cs). m (drop k (c # cs)) = None"
    from a have "m (drop 0 (c # cs)) = None" by blast
    then show "m (c # cs) = None" by simp
    fix k assume "k \<le> length cs"
    with a have "m (drop (Suc k) (c # cs)) = None" by (metis Suc_le_mono length_Cons)
    then show "m (drop k cs) = None" by simp
  next
    fix k assume a: "m (c # cs) = None \<and> (\<forall>k\<le>length cs. m (drop k cs) = None)" and k: "k \<le> length (c # cs)"
    then show "m (drop k (c # cs)) = None" by (cases k) auto
  qed
  with Cons show ?case by (simp split: option.splits)
qed

lemma search_first:
  "k \<le> length s \<Longrightarrow> m (drop k s) = Some r \<Longrightarrow> (\<forall>j<k. m (drop j s) = None) \<Longrightarrow> search m s = Some r"
proof (induction s arbitrary: k)
  case Nil
  then show ?case by simp
next
  case (Cons c cs)
  show ?case
  proof (cases k)
    case 0
    with Cons.prems show ?thesis by simp
  next
    case (Suc n)
    with Cons.prems have h0: "m (drop 0 (c # cs)) = None" by blast
    have "\<forall>j<n. m (drop j cs) = None"
    proof (intro allI impI)
      fix j assume "j < n"
      then have "Suc j < k" using Suc by simp
      with Cons.prems(3) have "m (drop (Suc j) (c # cs)) = None" by blast
      then show "m (drop j cs) = None" by simp
    qed
    with Cons.IH[of n] Cons.prems Suc have "search m cs = Some r" by simp
    with h0 show ?thesis by simp
  qed
qed

lemma search_Some_ex: "search m s = Some r \<Longrightarrow> \<exists>k\<le>length s. m (drop k s) = Some r"
proof (induction s)
  case Nil
  then show ?case by simp
next
  case (Cons c cs)
  show ?case
  proof (cases "m (c # cs)")
    case None
    with Cons obtain k where "k \<le> length cs" "m (drop k cs) = Some r" by auto
    then show ?thesis by (intro exI[of _ "Suc k"]) simp
  next
    case (Some a)
    with Cons.prems show ?thesis by (intro exI[of _ 0]) simp
  qed
qed

lemma lit_then_id:
  "(case match_lit l (drop k t) of None \<Rightarrow> None | Some r \<Rightarrow> take_id r)
     = (if occurs l t k then Some (take 11 (drop (k + length l) t)) else None)"
  by (simp add: match_lit_eq take_id_eq occurs_def add.commute)

lemma len_markers:
  "length ''?v='' = 3" "length ''&v='' = 3" "length ''youtu.be/'' = 9" "length ''youtube.com/embed/'' = 18"
  by simp_all

lemma m_query_alt:
  "m_query s = (case (case match_lit ''?v='' s of None \<Rightarrow> None | Some r \<Rightarrow> take_id r) of
                  Some i \<Rightarrow> Some i
                | None \<Rightarrow> (case match_lit ''&v='' s of None \<Rightarrow> None | Some r \<Rightarrow> take_id r))"
  by (cases s) (auto simp: m_query_def split: option.splits)

lemma m_query_drop:
  "m_query (drop k t) = (if occurs ''?v='' t k \<or> occurs ''&v='' t k then Some (take 11 (drop (k + 3) t)) else None)"
proof -
  have "m_query (drop k t) = (case (if occurs ''?v='' t k then Some (take 11 (drop (k + 3) t)) else None) of
                  Some i \<Rightarrow> Some i
                | None \<Rightarrow> (if occurs ''&v='' t k then Some (take 11 (drop (k + 3) t)) else None))"
    by (simp only: m_query_alt lit_then_id len_markers)
  then show ?thesis by simp
qed

lemma m_short_drop:
  "m_short (drop k t) = (if occurs ''youtu.be/'' t k then Some (take 11 (drop (k + 9) t)) else None)"
  by (simp only: m_short_def lit_then_id len_markers)

lemma m_embed_drop:
  "m_embed (drop k t) = (if occurs ''youtube.com/embed/'' t k then Some (take 11 (drop (k + 18) t)) else None)"
  by (simp only: m_embed_def lit_then_id len_markers)

lemma m_bare_eq: "m_bare t = (if valid_id t then Some t else None)"
  by (simp add: m_bare_def valid_id_def)

lemma occurs_length: "occurs l t k \<Longrightarrow> k + length l + 11 \<le> length t"
  by (auto simp: occurs_def valid_id_def)

lemma occurs_le: "occurs l t k \<Longrightarrow> k \<le> length t"
  using occurs_length[of l t k] by simp

lemma occurs_valid: "occurs l t k \<Longrightarrow> valid_id (take 11 (drop (k + length l) t))"
  by (simp add: occurs_def)

lemma search_query_None: "search m_query t = None \<longleftrightarrow> no_occ [''?v='', ''&v=''] t"
  by (auto simp: search_None_iff m_query_drop no_occ_def)

lemma search_short_None: "search m_short t = None \<longleftrightarrow> no_occ [''youtu.be/''] t"
  by (auto simp: search_None_iff m_short_drop no_occ_def)

lemma search_embed_None: "search m_embed t = None \<longleftrightarrow> no_occ [''youtube.com/embed/''] t"
  by (auto simp: search_None_iff m_embed_drop no_occ_def)

lemma search_query_first:
  assumes "first_occ [''?v='', ''&v=''] t k"
  shows "search m_query t = Some (take 11 (drop (k + 3) t))"
proof (rule search_first)
  from assms show "k \<le> length t" by (auto simp: first_occ_def dest: occurs_le)
  from assms show "m_query (drop k t) = Some (take 11 (drop (k + 3) t))"
    by (auto simp: m_query_drop first_occ_def)
  from assms show "\<forall>j<k. m_query (drop j t) = None"
    by (auto simp: m_query_drop first_occ_def)
qed

lemma search_short_first:
  assumes "first_occ [''youtu.be/''] t k"
  shows "search m_short t = Some (take 11 (drop (k + 9) t))"
proof (rule search_first)
  from assms show "k \<le> length t" by (auto simp: first_occ_def dest: occurs_le)
  from assms show "m_short (drop k t) = Some (take 11 (drop (k + 9) t))"
    by (auto simp: m_short_drop first_occ_def)
  from assms show "\<forall>j<k. m_short (drop j t) = None"
    by (auto simp: m_short_drop first_occ_def)
qed

lemma search_embed_first:
  assumes "first_occ [''youtube.com/embed/''] t k"
  shows "search m_embed t = Some (take 11 (drop (k + 18) t))"
proof (rule search_first)
  from assms show "k \<le> length t" by (auto simp: first_occ_def dest: occurs_le)
  from assms show "m_embed (drop k t) = Some (take 11 (drop (k + 18) t))"
    by (auto simp: m_embed_drop first_occ_def)
  from assms show "\<forall>j<k. m_embed (drop j t) = None"
    by (auto simp: m_embed_drop first_occ_def)
qed

lemma short_no_occ:
  assumes "length t < length l + 11"
  shows "no_occ [l] t"
  using assms by (auto simp: no_occ_def dest: occurs_length)

lemma search_valid:
  "search m_query t = Some i \<Longrightarrow> valid_id i"
  "search m_short t = Some i \<Longrightarrow> valid_id i"
  "search m_embed t = Some i \<Longrightarrow> valid_id i"
proof -
  { assume "search m_query t = Some i"
    then obtain k where "m_query (drop k t) = Some i" by (blast dest: search_Some_ex)
    then show "valid_id i" using occurs_valid[of "''?v=''" t k] occurs_valid[of "''&v=''" t k]
      by (simp only: m_query_drop len_markers split: if_splits) auto }
  { assume "search m_short t = Some i"
    then obtain k where "m_short (drop k t) = Some i" by (blast dest: search_Some_ex)
    then show "valid_id i" using occurs_valid[of "''youtu.be/''" t k]
      by (simp only: m_short_drop len_markers split: if_splits) auto }
  { assume "search m_embed t = Some i"
    then obtain k where "m_embed (drop k t) = Some i" by (blast dest: search_Some_ex)
    then show "valid_id i" using occurs_valid[of "''youtube.com/embed/''" t k]
      by (simp only: m_embed_drop len_markers split: if_splits) auto }
qed

section \<open>Properties of extractVideoId\<close>

lemma extract_cases:
  "extractVideoId url =
     (case search m_query (trim url) of Some i \<Rightarrow> Some i | None \<Rightarrow>
      (case search m_short (trim url) of Some i \<Rightarrow> Some i | None \<Rightarrow>
      (case search m_embed (trim url) of Some i \<Rightarrow> Some i | None \<Rightarrow>
      (if valid_id (trim url) then Some (trim url) else None))))"
  by (simp add: extractVideoId_def m_bare_eq split: option.splits)

lemma no_occ_Cons: "no_occ (l # l' # ls) t \<longleftrightarrow> no_occ [l] t \<and> no_occ (l' # ls) t"
  by (auto simp: no_occ_def)

lemma no_occ_Nil: "no_occ [] t"
  by (simp add: no_occ_def)

lemma valid_id_no_markers:
  assumes "valid_id t"
  shows "no_occ [''?v='', ''&v=''] t" "no_occ [''youtu.be/''] t" "no_occ [''youtube.com/embed/''] t"
proof -
  from assms have "length t = 11" by (simp add: valid_id_def)
  then show "no_occ [''?v='', ''&v=''] t" "no_occ [''youtu.be/''] t" "no_occ [''youtube.com/embed/''] t"
    by (simp_all add: no_occ_Cons short_no_occ)
qed

lemma extract_query:
  "first_occ [''?v='', ''&v=''] (trim url) k \<Longrightarrow> extractVideoId url = Some (take 11 (drop (k + 3) (trim url)))"
  by (simp add: extract_cases search_query_first)

lemma extract_short:
  "no_occ [''?v='', ''&v=''] (trim url) \<Longrightarrow> first_occ [''youtu.be/''] (trim url) k
   \<Longrightarrow> extractVideoId url = Some (take 11 (drop (k + 9) (trim url)))"
  using search_query_None[of "trim url"] by (simp add: extract_cases search_short_first)

lemma extract_embed:
  "no_occ [''?v='', ''&v=''] (trim url) \<Longrightarrow> no_occ [''youtu.be/''] (trim url) \<Longrightarrow> first_occ [''youtube.com/embed/''] (trim url) k
   \<Longrightarrow> extractVideoId url = Some (take 11 (drop (k + 18) (trim url)))"
  using search_query_None[of "trim url"] search_short_None[of "trim url"]
  by (simp add: extract_cases search_embed_first)

lemma extract_bare: "valid_id (trim url) \<Longrightarrow> extractVideoId url = Some (trim url)"
  using valid_id_no_markers[of "trim url"] search_query_None[of "trim url"] search_short_None[of "trim url"]
    search_embed_None[of "trim url"]
  by (simp add: extract_cases)

lemma extract_None_iff:
  "extractVideoId url = None \<longleftrightarrow>
     no_occ [''?v='', ''&v=''] (trim url) \<and> no_occ [''youtu.be/''] (trim url)
     \<and> no_occ [''youtube.com/embed/''] (trim url) \<and> \<not> valid_id (trim url)"
  using search_query_None[of "trim url"] search_short_None[of "trim url"] search_embed_None[of "trim url"]
  by (auto simp: extract_cases split: option.splits)

lemma extract_valid: "extractVideoId url = Some i \<Longrightarrow> valid_id i"
  by (auto simp: extract_cases search_valid split: option.splits if_splits)

lemmas eval_extract = extractVideoId_def trim_def is_ws_def m_query_def m_short_def m_embed_def
  m_bare_def take_id_def idchar_def

lemma ex1: "extractVideoId ''https://www.youtube.com/watch?v=dQw4w9WgXcQ'' = Some ''dQw4w9WgXcQ''"
  by (simp add: extractVideoId_def trim_def is_ws_def m_query_def take_id_def idchar_def)
lemma ex2: "extractVideoId ''dQw4w9WgXcQ'' = Some ''dQw4w9WgXcQ''"
  by (simp add: extractVideoId_def trim_def is_ws_def m_query_def m_short_def m_embed_def m_bare_def take_id_def idchar_def)
lemma ex3: "extractVideoId ''not a url'' = None"
  by (simp add: extractVideoId_def trim_def is_ws_def m_query_def m_short_def m_embed_def m_bare_def take_id_def idchar_def)
lemma ex4: "extractVideoId '''' = None"
  by (simp add: extractVideoId_def trim_def is_ws_def m_query_def m_short_def m_embed_def m_bare_def take_id_def idchar_def)
lemma ex5: "extractVideoId ''dQw4w9WgXc'' = None"
  by (simp add: extractVideoId_def trim_def is_ws_def m_query_def m_short_def m_embed_def m_bare_def take_id_def idchar_def)

lemma occurs_here:
  assumes "t = pre @ l @ tok @ post" "11 \<le> length tok" "list_all idchar tok"
  shows "occurs l t (length pre)" "take 11 (drop (length pre + length l) t) = take 11 tok"
proof -
  have d: "drop (length pre + length l) t = tok @ post" using assms(1) by simp
  then show "take 11 (drop (length pre + length l) t) = take 11 tok" using assms(2) by simp
  have "valid_id (take 11 tok)" using assms(2,3)
    by (auto simp: valid_id_def list_all_iff dest: in_set_takeD)
  then show "occurs l t (length pre)" using assms(1,2) d by (simp add: occurs_def)
qed

lemma idchars_no_occ:
  assumes "list_all idchar t" "\<not> list_all idchar l"
  shows "no_occ [l] t"
proof -
  { fix k assume "occurs l t k"
    then have "l = take (length l) (drop k t)" by (simp add: occurs_def)
    then have "set l \<subseteq> set t" by (metis set_drop_subset set_take_subset subset_trans)
    with assms have False by (auto simp: list_all_iff) }
  then show ?thesis by (auto simp: no_occ_def)
qed

lemma idchars_no_markers:
  assumes "list_all idchar t"
  shows "no_occ [''?v='', ''&v=''] t" "no_occ [''youtu.be/''] t" "no_occ [''youtube.com/embed/''] t"
proof -
  have "no_occ [''?v=''] t" "no_occ [''&v=''] t"
    by (rule idchars_no_occ[OF assms], simp add: idchar_def)+
  then show "no_occ [''?v='', ''&v=''] t" by (simp add: no_occ_Cons)
  show "no_occ [''youtu.be/''] t" by (rule idchars_no_occ[OF assms]) (simp add: idchar_def)
  show "no_occ [''youtube.com/embed/''] t" by (rule idchars_no_occ[OF assms]) (simp add: idchar_def)
qed

lemma first_occ_here:
  assumes "t = pre @ l @ tok @ post" "11 \<le> length tok" "list_all idchar tok" "l \<in> set ls"
      "\<forall>j<length pre. \<forall>l'\<in>set ls. \<not> occurs l' t j"
  shows "first_occ ls t (length pre)"
  using occurs_here(1)[OF assms(1-3)] assms(4,5) by (auto simp: first_occ_def)

lemma some_occ_not_None:
  assumes "occurs l (trim url) k" "l \<in> {''?v='', ''&v='', ''youtu.be/'', ''youtube.com/embed/''}"
  shows "extractVideoId url \<noteq> None"
  using assms extract_None_iff[of url] occurs_le[OF assms(1)]
  by (auto simp: no_occ_def)

lemma idchar_alphabet:
  "idchar c \<longleftrightarrow> c \<in> set id_alphabet"
proof (cases c)
  case (Char b0 b1 b2 b3 b4 b5 b6 b7)
  show ?thesis
    unfolding Char
    by (cases b0; cases b1; cases b2; cases b3; cases b4; cases b5; cases b6; cases b7;
        simp add: idchar_def)
qed

lemma is_ws_chars:
  "is_ws c \<longleftrightarrow> c \<in> white_space"
proof (cases c)
  case (Char b0 b1 b2 b3 b4 b5 b6 b7)
  show ?thesis
    unfolding Char
    by (cases b0; cases b1; cases b2; cases b3; cases b4; cases b5; cases b6; cases b7;
        simp add: is_ws_def)
qed

lemma dropWhile_all: "\<forall>c \<in> set xs. P c \<Longrightarrow> dropWhile P xs = []"
  by simp

lemma dropWhile_keep: "xs \<noteq> [] \<Longrightarrow> \<not> P (hd xs) \<Longrightarrow> dropWhile P xs = xs"
  by (cases xs) simp_all

lemma trim_right_pad:
  assumes "\<forall>c \<in> set ws. is_ws c"
  shows "rev (dropWhile is_ws (rev (x @ ws))) = rev (dropWhile is_ws (rev x))"
proof -
  have "dropWhile is_ws (rev ws @ rev x) = dropWhile is_ws (rev x)"
    by (rule dropWhile_append2) (use assms in auto)
  then show ?thesis by simp
qed

lemma trim_pad:
  assumes "\<forall>c \<in> set ws1. is_ws c" "\<forall>c \<in> set ws2. is_ws c"
  shows "trim (ws1 @ url @ ws2) = trim url"
proof -
  have l: "dropWhile is_ws (ws1 @ url @ ws2) = dropWhile is_ws (url @ ws2)"
    by (rule dropWhile_append2) (use assms(1) in auto)
  show ?thesis
  proof (cases "\<forall>c \<in> set url. is_ws c")
    case True
    with assms(2) have "\<forall>c \<in> set (url @ ws2). is_ws c" by auto
    then have a: "dropWhile is_ws (url @ ws2) = []" by (rule dropWhile_all)
    from True have b: "dropWhile is_ws url = []" by (rule dropWhile_all)
    show ?thesis unfolding trim_def l a b ..
  next
    case False
    then obtain c where "c \<in> set url" "\<not> is_ws c" by blast
    then have a: "dropWhile is_ws (url @ ws2) = dropWhile is_ws url @ ws2"
      by (rule dropWhile_append1)
    show ?thesis unfolding trim_def l a by (rule trim_right_pad[OF assms(2)])
  qed
qed

lemma trim_clean:
  assumes "t = [] \<or> (\<not> is_ws (hd t) \<and> \<not> is_ws (last t))"
  shows "trim t = t"
proof (cases "t = []")
  case True
  then show ?thesis by (simp add: trim_def)
next
  case False
  with assms have h: "\<not> is_ws (hd t)" and l: "\<not> is_ws (last t)" by auto
  from False h have 1: "dropWhile is_ws t = t" by (rule dropWhile_keep)
  from False l have "rev t \<noteq> []" "\<not> is_ws (hd (rev t))" by (simp_all add: hd_rev)
  then have 2: "dropWhile is_ws (rev t) = rev t" by (rule dropWhile_keep)
  show ?thesis unfolding trim_def 1 2 by simp
qed

lemma ws_subset:
  assumes "set ws \<subseteq> white_space"
  shows "\<forall>c \<in> set ws. is_ws c"
proof
  fix c assume "c \<in> set ws"
  then have "c \<in> white_space"
    using assms by (rule subsetD[rotated])
  then show "is_ws c" by (rule is_ws_chars[THEN iffD2])
qed

lemma trim_strips:
  assumes "set ws1 \<subseteq> white_space"
    and "set ws2 \<subseteq> white_space"
    and "t = [] \<or> (hd t \<notin> white_space
                    \<and> last t \<notin> white_space)"
  shows "trim (ws1 @ t @ ws2) = t"
proof -
  have "trim (ws1 @ t @ ws2) = trim t"
    by (rule trim_pad[OF ws_subset[OF assms(1)] ws_subset[OF assms(2)]])
  moreover from assms(3) have "t = [] \<or> (\<not> is_ws (hd t) \<and> \<not> is_ws (last t))"
    by (simp only: is_ws_chars)
  then have "trim t = t" by (rule trim_clean)
  ultimately show ?thesis by simp
qed

lemma extract_pad:
  assumes "set ws1 \<subseteq> white_space"
    and "set ws2 \<subseteq> white_space"
  shows "extractVideoId (ws1 @ url @ ws2) = extractVideoId url"
proof -
  have "trim (ws1 @ url @ ws2) = trim url"
    by (rule trim_pad[OF ws_subset[OF assms(1)] ws_subset[OF assms(2)]])
  then show ?thesis by (simp only: extract_cases)
qed

lemma valid_id_alphabet:
  "valid_id i \<longleftrightarrow> length i = 11 \<and> set i \<subseteq> set id_alphabet"
  unfolding valid_id_def list_all_iff idchar_alphabet by blast

lemma ex6: "extractVideoId ''hello world'' = None"
  by (simp add: eval_extract)
lemma ex7: "extractVideoId (''dQw4w9WgXcQ'' @ [CHR 0x20, CHR 0x0A]) = Some ''dQw4w9WgXcQ''"
  by (simp add: eval_extract)
lemma ex8: "extractVideoId ([CHR 0x09, CHR 0x20] @ ''https://youtu.be/dQw4w9WgXcQ'' @ [CHR 0x0D, CHR 0x0A]) = Some ''dQw4w9WgXcQ''"
  by (simp add: eval_extract)
lemma ex9: "extractVideoId ''https://www.youtube.com/watch?v=dQw4w9Wg cQ'' = None"
  by (simp add: eval_extract)

lemma alphabet_not_ws: "c \<in> set id_alphabet \<Longrightarrow> \<not> is_ws c"
  by (auto simp: is_ws_def)

lemma extract_padded_id:
  assumes "length t = 11" "set t \<subseteq> set id_alphabet"
    and "set ws1 \<subseteq> white_space" "set ws2 \<subseteq> white_space"
  shows "extractVideoId (ws1 @ t @ ws2) = Some t"
proof -
  from assms(1) have ne: "t \<noteq> []" by auto
  then have "hd t \<in> set t" and "last t \<in> set t" by simp_all
  have "hd t \<in> set id_alphabet"
    by (rule subsetD[OF assms(2) \<open>hd t \<in> set t\<close>])
  then have nh: "\<not> is_ws (hd t)" by (rule alphabet_not_ws)
  have "last t \<in> set id_alphabet"
    by (rule subsetD[OF assms(2) \<open>last t \<in> set t\<close>])
  then have nl: "\<not> is_ws (last t)" by (rule alphabet_not_ws)
  note nh nl
  then have tr: "trim t = t" by (intro trim_clean disjI2 conjI)
  from assms(1,2) have "valid_id t" by (simp only: valid_id_alphabet)
  with tr have "extractVideoId t = Some t" using extract_bare[of t] by simp
  with extract_pad[OF assms(3,4), of t] show ?thesis by simp
qed

text \<open>
  Claim C5. \<^verbatim>\<open>extractVideoId\<close> tries four patterns on the trimmed input, in this order:
  the query parameter (\<^verbatim>\<open>?v=\<close> or \<^verbatim>\<open>&v=\<close>), the short link (\<^verbatim>\<open>youtu.be/\<close>), the embed path
  (\<^verbatim>\<open>youtube.com/embed/\<close>), the bare identifier. The result is the identifier after the
  leftmost occurrence of the first pattern that occurs at all; a bare identifier is returned
  as it is; the result is \<^verbatim>\<open>null\<close> exactly when no pattern occurs; every result is an
  eleven-character identifier. The function is a total, pure HOL function with no error
  value, so it is deterministic, never throws and has no effect. The identifier characters
  are exactly the sixty-four of the alphabet; white space on either side of the input does
  not change the result, and trimming removes exactly it; an identifier with white space
  around it is returned bare. The three inputs of the specification's scenario, the empty
  string, a ten-character token, eleven characters with a space among them and an
  identifier followed by white space give what the specification says.
\<close>

theorem extractVideoId_first_match:
  "(first_occ [''?v='', ''&v=''] (trim url) k
      \<longrightarrow> extractVideoId url = Some (take 11 (drop (k + 3) (trim url))))
   \<and> (no_occ [''?v='', ''&v=''] (trim url) \<and> first_occ [''youtu.be/''] (trim url) k
      \<longrightarrow> extractVideoId url = Some (take 11 (drop (k + 9) (trim url))))
   \<and> (no_occ [''?v='', ''&v=''] (trim url) \<and> no_occ [''youtu.be/''] (trim url)
        \<and> first_occ [''youtube.com/embed/''] (trim url) k
      \<longrightarrow> extractVideoId url = Some (take 11 (drop (k + 18) (trim url))))
   \<and> (valid_id (trim url) \<longrightarrow> extractVideoId url = Some (trim url))
   \<and> (extractVideoId url = None \<longleftrightarrow>
        no_occ [''?v='', ''&v=''] (trim url) \<and> no_occ [''youtu.be/''] (trim url)
        \<and> no_occ [''youtube.com/embed/''] (trim url) \<and> \<not> valid_id (trim url))
   \<and> (\<forall>i. extractVideoId url = Some i \<longrightarrow> valid_id i)
   \<and> extractVideoId ''https://www.youtube.com/watch?v=dQw4w9WgXcQ'' = Some ''dQw4w9WgXcQ''
   \<and> extractVideoId ''dQw4w9WgXcQ'' = Some ''dQw4w9WgXcQ''
   \<and> extractVideoId ''not a url'' = None
   \<and> extractVideoId [] = None
   \<and> extractVideoId ''dQw4w9WgXc'' = None
   \<and> (\<forall>c. idchar c \<longleftrightarrow> c \<in> set id_alphabet)
   \<and> (\<forall>i. valid_id i \<longleftrightarrow> length i = 11 \<and> set i \<subseteq> set id_alphabet)
   \<and> (set lead \<subseteq> white_space \<and> set trail \<subseteq> white_space
        \<and> (t = [] \<or> (hd t \<notin> white_space \<and> last t \<notin> white_space))
      \<longrightarrow> trim (lead @ t @ trail) = t)
   \<and> (set lead \<subseteq> white_space \<and> set trail \<subseteq> white_space
      \<longrightarrow> extractVideoId (lead @ url @ trail) = extractVideoId url)
   \<and> (length t = 11 \<and> set t \<subseteq> set id_alphabet
        \<and> set lead \<subseteq> white_space \<and> set trail \<subseteq> white_space
      \<longrightarrow> extractVideoId (lead @ t @ trail) = Some t)
   \<and> extractVideoId ''hello world'' = None
   \<and> extractVideoId (''dQw4w9WgXcQ'' @ [CHR 0x20, CHR 0x0A]) = Some ''dQw4w9WgXcQ''
   \<and> extractVideoId ([CHR 0x09, CHR 0x20] @ ''https://youtu.be/dQw4w9WgXcQ'' @ [CHR 0x0D, CHR 0x0A])
       = Some ''dQw4w9WgXcQ''
   \<and> extractVideoId ''https://www.youtube.com/watch?v=dQw4w9Wg cQ'' = None"
proof -
  have a: "first_occ [''?v='', ''&v=''] (trim url) k
      \<longrightarrow> extractVideoId url = Some (take 11 (drop (k + 3) (trim url)))"
    by (rule impI) (rule extract_query)
  have b: "no_occ [''?v='', ''&v=''] (trim url) \<and> first_occ [''youtu.be/''] (trim url) k
      \<longrightarrow> extractVideoId url = Some (take 11 (drop (k + 9) (trim url)))"
    by (rule impI, elim conjE) (rule extract_short)
  have c: "no_occ [''?v='', ''&v=''] (trim url) \<and> no_occ [''youtu.be/''] (trim url)
        \<and> first_occ [''youtube.com/embed/''] (trim url) k
      \<longrightarrow> extractVideoId url = Some (take 11 (drop (k + 18) (trim url)))"
    by (rule impI, elim conjE) (rule extract_embed)
  have d: "valid_id (trim url) \<longrightarrow> extractVideoId url = Some (trim url)"
    by (rule impI) (rule extract_bare)
  have f: "\<forall>i. extractVideoId url = Some i \<longrightarrow> valid_id i"
    by (intro allI impI) (rule extract_valid)
  have g: "\<forall>c. idchar c \<longleftrightarrow> c \<in> set id_alphabet"
    by (rule allI) (rule idchar_alphabet)
  have h: "\<forall>i. valid_id i \<longleftrightarrow> length i = 11 \<and> set i \<subseteq> set id_alphabet"
    by (rule allI) (rule valid_id_alphabet)
  have i: "set lead \<subseteq> white_space \<and> set trail \<subseteq> white_space
        \<and> (t = [] \<or> (hd t \<notin> white_space \<and> last t \<notin> white_space))
      \<longrightarrow> trim (lead @ t @ trail) = t"
    by (rule impI, elim conjE) (rule trim_strips)
  have j: "set lead \<subseteq> white_space \<and> set trail \<subseteq> white_space
      \<longrightarrow> extractVideoId (lead @ url @ trail) = extractVideoId url"
    by (rule impI, elim conjE) (rule extract_pad)
  have l: "length t = 11 \<and> set t \<subseteq> set id_alphabet
        \<and> set lead \<subseteq> white_space \<and> set trail \<subseteq> white_space
      \<longrightarrow> extractVideoId (lead @ t @ trail) = Some t"
    by (rule impI, elim conjE) (rule extract_padded_id)
  show ?thesis
    by (intro conjI a b c d f extract_None_iff ex1 ex2 ex3 ex4 ex5 g h i j l ex6 ex7 ex8 ex9)
qed

theorem extractVideoId_first_match_witness:
  "first_occ [''?v='', ''&v=''] (trim '' ?v=dQw4w9WgXcQ&v=aaaaaaaaaaa '') 0
   \<and> extractVideoId '' ?v=dQw4w9WgXcQ&v=aaaaaaaaaaa '' = Some ''dQw4w9WgXcQ''
   \<and> no_occ [''?v='', ''&v=''] (trim ''youtu.be/dQw4w9WgXcQ'')
   \<and> first_occ [''youtu.be/''] (trim ''youtu.be/dQw4w9WgXcQ'') 0
   \<and> extractVideoId ''youtu.be/dQw4w9WgXcQ'' = Some ''dQw4w9WgXcQ''
   \<and> no_occ [''youtu.be/''] (trim ''youtube.com/embed/dQw4w9WgXcQ'')
   \<and> first_occ [''youtube.com/embed/''] (trim ''youtube.com/embed/dQw4w9WgXcQ'') 0
   \<and> extractVideoId ''youtube.com/embed/dQw4w9WgXcQ'' = Some ''dQw4w9WgXcQ''
   \<and> valid_id (trim '' dQw4w9WgXcQ'')
   \<and> extractVideoId '' dQw4w9WgXcQ'' = Some ''dQw4w9WgXcQ''
   \<and> set [CHR 0x20, CHR 0x09] \<subseteq> white_space \<and> set [CHR 0x0D, CHR 0x0A] \<subseteq> white_space
   \<and> length ''dQw4w9WgXcQ'' = 11 \<and> set ''dQw4w9WgXcQ'' \<subseteq> set id_alphabet
   \<and> trim ([CHR 0x20, CHR 0x09] @ ''dQw4w9WgXcQ'' @ [CHR 0x0D, CHR 0x0A]) = ''dQw4w9WgXcQ''
   \<and> extractVideoId ([CHR 0x20, CHR 0x09] @ ''dQw4w9WgXcQ'' @ [CHR 0x0D, CHR 0x0A]) = Some ''dQw4w9WgXcQ''
   \<and> extractVideoId ([CHR 0x20, CHR 0x09] @ ''not a url'' @ [CHR 0x0D, CHR 0x0A]) = extractVideoId ''not a url''"
proof -
  have h1: "first_occ [''?v='', ''&v=''] (trim '' ?v=dQw4w9WgXcQ&v=aaaaaaaaaaa '') 0"
    by (simp add: first_occ_def occurs_def valid_id_def trim_def is_ws_def idchar_def)
  have h2: "no_occ [''?v='', ''&v=''] (trim ''youtu.be/dQw4w9WgXcQ'')"
    unfolding search_query_None[symmetric] by (simp add: eval_extract)
  have h3: "first_occ [''youtu.be/''] (trim ''youtu.be/dQw4w9WgXcQ'') 0"
    by (simp add: first_occ_def occurs_def valid_id_def trim_def is_ws_def idchar_def)
  have h4: "no_occ [''?v='', ''&v=''] (trim ''youtube.com/embed/dQw4w9WgXcQ'')"
    unfolding search_query_None[symmetric] by (simp add: eval_extract)
  have h5: "no_occ [''youtu.be/''] (trim ''youtube.com/embed/dQw4w9WgXcQ'')"
    unfolding search_short_None[symmetric] by (simp add: eval_extract)
  have h6: "first_occ [''youtube.com/embed/''] (trim ''youtube.com/embed/dQw4w9WgXcQ'') 0"
    by (simp add: first_occ_def occurs_def valid_id_def trim_def is_ws_def idchar_def)
  have h7: "valid_id (trim '' dQw4w9WgXcQ'')"
    by (simp add: valid_id_def trim_def is_ws_def idchar_def)
  have t1: "take 11 (drop (0 + 3) (trim '' ?v=dQw4w9WgXcQ&v=aaaaaaaaaaa '')) = ''dQw4w9WgXcQ''"
    by (simp add: trim_def is_ws_def)
  have t2: "take 11 (drop (0 + 9) (trim ''youtu.be/dQw4w9WgXcQ'')) = ''dQw4w9WgXcQ''"
    by (simp add: trim_def is_ws_def)
  have t3: "take 11 (drop (0 + 18) (trim ''youtube.com/embed/dQw4w9WgXcQ'')) = ''dQw4w9WgXcQ''"
    by (simp add: trim_def is_ws_def)
  have t4: "trim '' dQw4w9WgXcQ'' = ''dQw4w9WgXcQ''"
    by (simp add: trim_def is_ws_def)
  note T1 = extractVideoId_first_match[of "'' ?v=dQw4w9WgXcQ&v=aaaaaaaaaaa ''" 0]
  note T2 = extractVideoId_first_match[of "''youtu.be/dQw4w9WgXcQ''" 0]
  note T3 = extractVideoId_first_match[of "''youtube.com/embed/dQw4w9WgXcQ''" 0]
  note T4 = extractVideoId_first_match[of "'' dQw4w9WgXcQ''" 0]
  have r1: "extractVideoId '' ?v=dQw4w9WgXcQ&v=aaaaaaaaaaa '' = Some ''dQw4w9WgXcQ''"
    using T1[THEN conjunct1, THEN mp, OF h1] by (simp only: t1)
  have r2: "extractVideoId ''youtu.be/dQw4w9WgXcQ'' = Some ''dQw4w9WgXcQ''"
    using T2[THEN conjunct2, THEN conjunct1, THEN mp, OF conjI[OF h2 h3]] by (simp only: t2)
  have r3: "extractVideoId ''youtube.com/embed/dQw4w9WgXcQ'' = Some ''dQw4w9WgXcQ''"
    using T3[THEN conjunct2, THEN conjunct2, THEN conjunct1, THEN mp, OF conjI[OF h4 conjI[OF h5 h6]]]
    by (simp only: t3)
  have r4: "extractVideoId '' dQw4w9WgXcQ'' = Some ''dQw4w9WgXcQ''"
    using T4[THEN conjunct2, THEN conjunct2, THEN conjunct2, THEN conjunct1, THEN mp, OF h7]
    by (simp only: t4)
  have w1: "set [CHR 0x20, CHR 0x09] \<subseteq> white_space" and w2: "set [CHR 0x0D, CHR 0x0A] \<subseteq> white_space"
    by simp_all
  have l1: "length ''dQw4w9WgXcQ'' = 11" and a1: "set ''dQw4w9WgXcQ'' \<subseteq> set id_alphabet"
    by simp_all
  have c1: "''dQw4w9WgXcQ'' = [] \<or> (hd ''dQw4w9WgXcQ'' \<notin> white_space \<and> last ''dQw4w9WgXcQ'' \<notin> white_space)"
    by simp
  note T5 = extractVideoId_first_match
    [where lead = "[CHR 0x20, CHR 0x09]" and trail = "[CHR 0x0D, CHR 0x0A]" and t = "''dQw4w9WgXcQ''"
       and url = "''not a url''"]
  note i5 = T5[THEN conjunct2, THEN conjunct2, THEN conjunct2, THEN conjunct2, THEN conjunct2, THEN conjunct2, THEN conjunct2, THEN conjunct2, THEN conjunct2, THEN conjunct2, THEN conjunct2, THEN conjunct2, THEN conjunct2, THEN conjunct1]
  note j5 = T5[THEN conjunct2, THEN conjunct2, THEN conjunct2, THEN conjunct2, THEN conjunct2, THEN conjunct2, THEN conjunct2, THEN conjunct2, THEN conjunct2, THEN conjunct2, THEN conjunct2, THEN conjunct2, THEN conjunct2, THEN conjunct2, THEN conjunct1]
  note l5 = T5[THEN conjunct2, THEN conjunct2, THEN conjunct2, THEN conjunct2, THEN conjunct2, THEN conjunct2, THEN conjunct2, THEN conjunct2, THEN conjunct2, THEN conjunct2, THEN conjunct2, THEN conjunct2, THEN conjunct2, THEN conjunct2, THEN conjunct2, THEN conjunct1]
  have r5: "trim ([CHR 0x20, CHR 0x09] @ ''dQw4w9WgXcQ'' @ [CHR 0x0D, CHR 0x0A]) = ''dQw4w9WgXcQ''"
    by (rule i5[THEN mp, OF conjI[OF w1 conjI[OF w2 c1]]])
  have r6: "extractVideoId ([CHR 0x20, CHR 0x09] @ ''not a url'' @ [CHR 0x0D, CHR 0x0A]) = extractVideoId ''not a url''"
    by (rule j5[THEN mp, OF conjI[OF w1 w2]])
  have r7: "extractVideoId ([CHR 0x20, CHR 0x09] @ ''dQw4w9WgXcQ'' @ [CHR 0x0D, CHR 0x0A]) = Some ''dQw4w9WgXcQ''"
    by (rule l5[THEN mp, OF conjI[OF l1 conjI[OF a1 conjI[OF w1 w2]]]])
  show ?thesis
    by (intro conjI h1 r1 h2 h3 r2 h5 h6 r3 h7 r4 w1 w2 l1 a1 r5 r7 r6)
qed

text \<open>
  Claim C10. The query-parameter, short-link and embed patterns have no right-hand
  boundary: when the marker is followed by a token of twelve or more identifier characters,
  the result is the first eleven characters of the token (for the leftmost occurrence of
  the pattern, the patterns before it in the order not occurring), and in any case it is
  not \<^verbatim>\<open>null\<close>. Only the bare form needs the whole trimmed input to be exactly eleven
  identifier characters: an input of identifier characters of any other length gives
  \<^verbatim>\<open>null\<close>.
\<close>

theorem extractVideoId_no_right_boundary:
  "(trim url = pre @ l @ tok @ post \<and> l \<in> {''?v='', ''&v=''}
      \<and> 12 \<le> length tok \<and> list_all idchar tok
      \<and> (\<forall>j<length pre. \<forall>l'\<in>set [''?v='', ''&v='']. \<not> occurs l' (trim url) j)
    \<longrightarrow> extractVideoId url = Some (take 11 tok))
   \<and> (trim url = pre @ ''youtu.be/'' @ tok @ post
      \<and> 12 \<le> length tok \<and> list_all idchar tok
      \<and> no_occ [''?v='', ''&v=''] (trim url)
      \<and> (\<forall>j<length pre. \<forall>l'\<in>set [''youtu.be/'']. \<not> occurs l' (trim url) j)
    \<longrightarrow> extractVideoId url = Some (take 11 tok))
   \<and> (trim url = pre @ ''youtube.com/embed/'' @ tok @ post
      \<and> 12 \<le> length tok \<and> list_all idchar tok
      \<and> no_occ [''?v='', ''&v=''] (trim url) \<and> no_occ [''youtu.be/''] (trim url)
      \<and> (\<forall>j<length pre. \<forall>l'\<in>set [''youtube.com/embed/'']. \<not> occurs l' (trim url) j)
    \<longrightarrow> extractVideoId url = Some (take 11 tok))
   \<and> (trim url = pre @ l @ tok @ post
      \<and> l \<in> {''?v='', ''&v='', ''youtu.be/'', ''youtube.com/embed/''}
      \<and> 12 \<le> length tok \<and> list_all idchar tok
    \<longrightarrow> extractVideoId url \<noteq> None)
   \<and> (list_all idchar (trim url) \<and> length (trim url) \<noteq> 11 \<longrightarrow> extractVideoId url = None)"
proof -
  have a: "extractVideoId url = Some (take 11 tok)"
    if h: "trim url = pre @ l @ tok @ post \<and> l \<in> {''?v='', ''&v=''}
      \<and> 12 \<le> length tok \<and> list_all idchar tok
      \<and> (\<forall>j<length pre. \<forall>l'\<in>set [''?v='', ''&v='']. \<not> occurs l' (trim url) j)"
  proof -
    from h have t: "trim url = pre @ l @ tok @ post" and l: "l \<in> set [''?v='', ''&v='']"
      and n: "11 \<le> length tok" and i: "list_all idchar tok"
      and e: "\<forall>j<length pre. \<forall>l'\<in>set [''?v='', ''&v='']. \<not> occurs l' (trim url) j" by auto
    have ll: "length l = 3" using l by auto
    have "first_occ [''?v='', ''&v=''] (trim url) (length pre)"
      by (rule first_occ_here[OF t n i l e])
    then have "extractVideoId url = Some (take 11 (drop (length pre + 3) (trim url)))"
      by (rule extract_query)
    with occurs_here(2)[OF t n i] ll show ?thesis by simp
  qed
  have b: "extractVideoId url = Some (take 11 tok)"
    if h: "trim url = pre @ ''youtu.be/'' @ tok @ post
      \<and> 12 \<le> length tok \<and> list_all idchar tok
      \<and> no_occ [''?v='', ''&v=''] (trim url)
      \<and> (\<forall>j<length pre. \<forall>l'\<in>set [''youtu.be/'']. \<not> occurs l' (trim url) j)"
  proof -
    from h have t: "trim url = pre @ ''youtu.be/'' @ tok @ post"
      and n: "11 \<le> length tok" and i: "list_all idchar tok"
      and q: "no_occ [''?v='', ''&v=''] (trim url)"
      and e: "\<forall>j<length pre. \<forall>l'\<in>set [''youtu.be/'']. \<not> occurs l' (trim url) j" by auto
    have "first_occ [''youtu.be/''] (trim url) (length pre)"
      by (rule first_occ_here[OF t n i _ e]) simp
    with q have "extractVideoId url = Some (take 11 (drop (length pre + 9) (trim url)))"
      by (rule extract_short)
    with occurs_here(2)[OF t n i] show ?thesis by (simp only: len_markers)
  qed
  have c: "extractVideoId url = Some (take 11 tok)"
    if h: "trim url = pre @ ''youtube.com/embed/'' @ tok @ post
      \<and> 12 \<le> length tok \<and> list_all idchar tok
      \<and> no_occ [''?v='', ''&v=''] (trim url) \<and> no_occ [''youtu.be/''] (trim url)
      \<and> (\<forall>j<length pre. \<forall>l'\<in>set [''youtube.com/embed/'']. \<not> occurs l' (trim url) j)"
  proof -
    from h have t: "trim url = pre @ ''youtube.com/embed/'' @ tok @ post"
      and n: "11 \<le> length tok" and i: "list_all idchar tok"
      and q: "no_occ [''?v='', ''&v=''] (trim url)" and s: "no_occ [''youtu.be/''] (trim url)"
      and e: "\<forall>j<length pre. \<forall>l'\<in>set [''youtube.com/embed/'']. \<not> occurs l' (trim url) j" by auto
    have "first_occ [''youtube.com/embed/''] (trim url) (length pre)"
      by (rule first_occ_here[OF t n i _ e]) simp
    with q s have "extractVideoId url = Some (take 11 (drop (length pre + 18) (trim url)))"
      by (rule extract_embed)
    with occurs_here(2)[OF t n i] show ?thesis by (simp only: len_markers)
  qed
  have d: "extractVideoId url \<noteq> None"
    if h: "trim url = pre @ l @ tok @ post
      \<and> l \<in> {''?v='', ''&v='', ''youtu.be/'', ''youtube.com/embed/''}
      \<and> 12 \<le> length tok \<and> list_all idchar tok"
  proof -
    from h have t: "trim url = pre @ l @ tok @ post"
      and l: "l \<in> {''?v='', ''&v='', ''youtu.be/'', ''youtube.com/embed/''}"
      and n: "11 \<le> length tok" and i: "list_all idchar tok" by auto
    from occurs_here(1)[OF t n i] l show ?thesis by (rule some_occ_not_None)
  qed
  have e: "extractVideoId url = None" if h: "list_all idchar (trim url) \<and> length (trim url) \<noteq> 11"
    using h idchars_no_markers[of "trim url"] extract_None_iff[of url] by (simp add: valid_id_def)
  show ?thesis
    using a b c d e by (intro conjI impI)
qed

theorem extractVideoId_no_right_boundary_witness:
  "12 \<le> length ''dQw4w9WgXcQXYZ'' \<and> list_all idchar ''dQw4w9WgXcQXYZ''
   \<and> trim ''?v=dQw4w9WgXcQXYZ&t=1'' = [] @ ''?v='' @ ''dQw4w9WgXcQXYZ'' @ ''&t=1''
   \<and> extractVideoId ''?v=dQw4w9WgXcQXYZ&t=1'' = Some ''dQw4w9WgXcQ''
   \<and> extractVideoId ''youtu.be/dQw4w9WgXcQXYZ'' = Some ''dQw4w9WgXcQ''
   \<and> extractVideoId ''youtube.com/embed/dQw4w9WgXcQXYZ'' = Some ''dQw4w9WgXcQ''
   \<and> extractVideoId ''x&v=dQw4w9WgXcQXYZ'' \<noteq> None
   \<and> extractVideoId ''dQw4w9WgXcQX'' = None"
proof -
  note T = extractVideoId_no_right_boundary
  have t1: "trim ''?v=dQw4w9WgXcQXYZ&t=1'' = [] @ ''?v='' @ ''dQw4w9WgXcQXYZ'' @ ''&t=1''"
    by (simp add: trim_def is_ws_def)
  have i: "list_all idchar ''dQw4w9WgXcQXYZ''" by (simp add: idchar_def)
  have r1: "extractVideoId ''?v=dQw4w9WgXcQXYZ&t=1'' = Some (take 11 ''dQw4w9WgXcQXYZ'')"
    by (rule T[of "''?v=dQw4w9WgXcQXYZ&t=1''" "[]" "''?v=''" "''dQw4w9WgXcQXYZ''" "''&t=1''",
          THEN conjunct1, THEN mp]) (simp add: t1 idchar_def)
  have t2: "trim ''youtu.be/dQw4w9WgXcQXYZ'' = ''youtu.be/dQw4w9WgXcQXYZ''"
    by (simp add: trim_def is_ws_def)
  have q2: "no_occ [''?v='', ''&v=''] ''youtu.be/dQw4w9WgXcQXYZ''"
    unfolding search_query_None[symmetric] by (simp add: eval_extract)
  have r2: "extractVideoId ''youtu.be/dQw4w9WgXcQXYZ'' = Some (take 11 ''dQw4w9WgXcQXYZ'')"
    by (rule T[of "''youtu.be/dQw4w9WgXcQXYZ''" "[]" _ "''dQw4w9WgXcQXYZ''" "[]",
          THEN conjunct2, THEN conjunct1, THEN mp]) (simp add: t2 idchar_def q2)
  have t3: "trim ''youtube.com/embed/dQw4w9WgXcQXYZ'' = ''youtube.com/embed/dQw4w9WgXcQXYZ''"
    by (simp add: trim_def is_ws_def)
  have q3: "no_occ [''?v='', ''&v=''] ''youtube.com/embed/dQw4w9WgXcQXYZ''"
    unfolding search_query_None[symmetric] by (simp add: eval_extract)
  have s3: "no_occ [''youtu.be/''] ''youtube.com/embed/dQw4w9WgXcQXYZ''"
    unfolding search_short_None[symmetric] by (simp add: eval_extract)
  have r3: "extractVideoId ''youtube.com/embed/dQw4w9WgXcQXYZ'' = Some (take 11 ''dQw4w9WgXcQXYZ'')"
    by (rule T[of "''youtube.com/embed/dQw4w9WgXcQXYZ''" "[]" _ "''dQw4w9WgXcQXYZ''" "[]",
          THEN conjunct2, THEN conjunct2, THEN conjunct1, THEN mp]) (simp add: t3 idchar_def q3 s3)
  have t4: "trim ''x&v=dQw4w9WgXcQXYZ'' = ''x'' @ ''&v='' @ ''dQw4w9WgXcQXYZ'' @ []"
    by (simp add: trim_def is_ws_def)
  have r4: "extractVideoId ''x&v=dQw4w9WgXcQXYZ'' \<noteq> None"
    by (rule T[of "''x&v=dQw4w9WgXcQXYZ''" "''x''" "''&v=''" "''dQw4w9WgXcQXYZ''" "[]",
          THEN conjunct2, THEN conjunct2, THEN conjunct2, THEN conjunct1, THEN mp]) (simp add: t4 idchar_def)
  have r5: "extractVideoId ''dQw4w9WgXcQX'' = None"
    by (rule T[of "''dQw4w9WgXcQX''", 
          THEN conjunct2, THEN conjunct2, THEN conjunct2, THEN conjunct2, THEN mp])
       (simp add: trim_def is_ws_def idchar_def)
  have k: "take 11 ''dQw4w9WgXcQXYZ'' = ''dQw4w9WgXcQ''" by simp
  have n: "12 \<le> length ''dQw4w9WgXcQXYZ''" by simp
  show ?thesis using n i t1 r1 r2 r3 r4 r5 unfolding k by (intro conjI)
qed

section \<open>Properties of getTranscript and transcribeAudio\<close>

lemma cleanup_eq: "cleanup env videoId w = w\<lparr>files := files w - {expectedAudioFile env videoId}\<rparr>"
  by (simp add: cleanup_def existsSync_def unlinkSync_def)

lemma transcribeAudio_unfold:
  assumes "exec env (download_command env videoId) (files w - {expectedAudioFile env videoId}) = (r, fs1)"
    and "exec env (whisper_command env videoId) fs1 = (r2, fs2)"
  shows "transcribeAudio env videoId w =
     (case exec_error r of
        Some e \<Rightarrow> (Inl e, w\<lparr>files := fs1 - {expectedAudioFile env videoId},
                           calls := calls w @ [Exec (download_command env videoId)]\<rparr>)
      | None \<Rightarrow>
          if expectedAudioFile env videoId \<notin> fs1
          then (Inl (Error ''Audio file not created after yt-dlp run''),
                w\<lparr>files := fs1, calls := calls w @ [Exec (download_command env videoId)]\<rparr>)
          else ((case exec_error r2 of Some e \<Rightarrow> Inl e | None \<Rightarrow> parse_segments env (stdout r2)),
                w\<lparr>files := fs2 - {expectedAudioFile env videoId},
                  calls := calls w @ [Exec (download_command env videoId), Exec (whisper_command env videoId)]\<rparr>))"
  using assms
  by (simp add: transcribeAudio_def cleanup_eq exec_call_def existsSync_def split: option.splits)

lemma get_prop_Inl: "get_prop v k = Inl e \<longleftrightarrow> v = JNull \<and> e = TypeError"
  by (cases v) auto

lemma map_throw_props_fails: "isl (map_throw (\<lambda>s. get_prop s k) xs) \<longleftrightarrow> JNull \<in> set xs"
proof (induction xs)
  case Nil
  then show ?case by simp
next
  case (Cons x xs)
  then show ?case
    by (cases x) (auto split: sum.splits)
qed

lemma toString_fails:
  "isl (toString v) \<longleftrightarrow> \<not> stringable v"
  "isl (toStrings xs) \<longleftrightarrow> \<not> list_all stringable xs"
  by (induction v and xs rule: toString_toStrings.induct) (auto split: sum.splits)

lemma toString_TypeError:
  "toString v = Inl e \<Longrightarrow> e = TypeError"
  "toStrings xs = Inl e \<Longrightarrow> e = TypeError"
  by (induction v and xs rule: toString_toStrings.induct) (auto split: sum.splits if_splits)

lemma elem_string_fails: "isl (elem_string x) \<longleftrightarrow> (\<exists>v. x = Some v \<and> \<not> stringable v)"
proof (cases x)
  case None
  then show ?thesis by simp
next
  case (Some v)
  then show ?thesis by (cases v) (simp_all add: toString_fails del: toString.simps)
qed

lemma elem_string_TypeError: "elem_string x = Inl e \<Longrightarrow> e = TypeError"
proof (cases x)
  case None
  then show "elem_string x = Inl e \<Longrightarrow> e = TypeError" by simp
next
  case (Some v)
  have "elem_string (Some v) = Inl e \<Longrightarrow> toString v = Inl e" by (cases v) simp_all
  with Some show "elem_string x = Inl e \<Longrightarrow> e = TypeError"
    using toString_TypeError(1)[of v e] by simp
qed

lemma map_throw_fails: "isl (map_throw f xs) \<longleftrightarrow> (\<exists>x \<in> set xs. isl (f x))"
  by (induction xs) (auto split: sum.splits)

lemma map_throw_error: "map_throw f xs = Inl e \<Longrightarrow> \<exists>x \<in> set xs. f x = Inl e"
  by (induction xs) (auto split: sum.splits)

lemma map_throw_Inr: "map_throw f xs = Inr ys \<Longrightarrow> ys = map (\<lambda>x. projr (f x)) xs"
  by (induction xs arbitrary: ys) (auto split: sum.splits)

lemma join_values_fails: "isl (join_values sep vs) \<longleftrightarrow> (\<exists>v. Some v \<in> set vs \<and> \<not> stringable v)"
proof -
  have "isl (join_values sep vs) \<longleftrightarrow> isl (map_throw elem_string vs)"
    by (simp add: join_values_def split: sum.splits)
  also have "\<dots> \<longleftrightarrow> (\<exists>x \<in> set vs. \<exists>v. x = Some v \<and> \<not> stringable v)"
    by (simp add: map_throw_fails elem_string_fails)
  also have "\<dots> \<longleftrightarrow> (\<exists>v. Some v \<in> set vs \<and> \<not> stringable v)" by auto
  finally show ?thesis .
qed

lemma join_values_TypeError: "join_values sep vs = Inl e \<Longrightarrow> e = TypeError"
  by (auto simp: join_values_def split: sum.splits dest!: map_throw_error elem_string_TypeError)


lemma message_of_TypeError: "message_of v = Inl e \<Longrightarrow> e = TypeError"
  by (cases v) (auto dest: toString_TypeError(1))

lemma rejection_of_cases:
  "rejection_of v = TypeError \<or> (\<exists>msg. rejection_of v = Error msg)"
  by (cases "message_of v") (auto simp: rejection_of_def dest: message_of_TypeError)

lemma texts_fail:
  "isl (case map_throw (\<lambda>s. get_prop s ''text'') xs of
          Inl e \<Rightarrow> Inl e | Inr ts \<Rightarrow> join_values sep ts)
   \<longleftrightarrow> \<not> list_all segment_ok xs"
proof (cases "map_throw (\<lambda>s. get_prop s ''text'') xs")
  case (Inl e)
  then have "JNull \<in> set xs" using map_throw_props_fails[of "''text''" xs] by simp
  then have "\<not> list_all segment_ok xs" by (auto simp: list_all_iff segment_ok_def)
  with Inl show ?thesis by simp
next
  case (Inr ts)
  then have n: "JNull \<notin> set xs" using map_throw_props_fails[of "''text''" xs] by simp
  from Inr have ts: "ts = map (\<lambda>x. projr (get_prop x ''text'')) xs" by (rule map_throw_Inr)
  have g: "get_prop x ''text'' = Inr (projr (get_prop x ''text''))" if "x \<in> set xs" for x
    using that n by (cases "get_prop x ''text''") (auto simp: get_prop_Inl)
  have "(\<exists>v. Some v \<in> set ts \<and> \<not> stringable v) \<longleftrightarrow> \<not> list_all segment_ok xs"
  proof
    assume "\<exists>v. Some v \<in> set ts \<and> \<not> stringable v"
    then obtain v x where x: "x \<in> set xs" "projr (get_prop x ''text'') = Some v" "\<not> stringable v"
      unfolding ts by force
    with g[OF x(1)] have "\<not> segment_ok x" by (simp add: segment_ok_def)
    with x(1) show "\<not> list_all segment_ok xs" by (auto simp: list_all_iff)
  next
    assume "\<not> list_all segment_ok xs"
    then obtain x where x: "x \<in> set xs" "\<not> segment_ok x" by (auto simp: list_all_iff)
    with n have "x \<noteq> JNull" by auto
    with x(2) g[OF x(1)] obtain v where "projr (get_prop x ''text'') = Some v" "\<not> stringable v"
      by (auto simp: segment_ok_def split: sum.splits option.splits)
    with x(1) show "\<exists>v. Some v \<in> set ts \<and> \<not> stringable v"
      unfolding ts by (metis (mono_tags, lifting) image_eqI list.set_map)
  qed
  with Inr show ?thesis by (simp add: join_values_fails)
qed

lemma parse_segments_fails_iff:
  "isl (parse_segments env out) \<longleftrightarrow>
     (case JSON_parse env out of None \<Rightarrow> True | Some v \<Rightarrow> has_error v \<or> \<not> segment_array v)"
proof (cases "JSON_parse env out")
  case None
  then show ?thesis by (simp add: parse_segments_def)
next
  case (Some v)
  show ?thesis
  proof (cases v)
    case (JArr xs)
    with Some texts_fail[of "'' ''" xs] show ?thesis
      by (simp add: parse_segments_def has_error_def segment_array_def)
  qed (use Some in \<open>auto simp: parse_segments_def has_error_def segment_array_def split: sum.splits\<close>)
qed

lemma parse_segments_empty: "JSON_parse env out = Some (JArr []) \<Longrightarrow> parse_segments env out = Inr []"
  by (simp add: parse_segments_def join_values_def)

lemma parse_segments_errors:
  "JSON_parse env out = None \<Longrightarrow> parse_segments env out = Inl SyntaxError"
  "JSON_parse env out = Some v \<Longrightarrow> get_prop v ''error'' = Inr x \<Longrightarrow> truthy_opt x
     \<Longrightarrow> parse_segments env out = Inl (rejection_of x)"
  by (simp_all add: parse_segments_def)

lemmas eval_world = w0_def failing_env_def silent_env_def two_errors_env_def empty_script_env_def
  empty_transcript_output_def caption_env_def watch_page_def whisper_env_def segments_output_def
  odd_length_env_def odd_length_output_def odd_text_env_def odd_text_output_def
  prints_def dies_def dq_def bs_def
  expectedAudioFile_def tempBasePath_def download_command_def whisper_command_def videoUrl_def
  primary_command_def secondary_command_def

lemma method2_unfold:
  assumes "exec env (primary_command env videoId) (files w) = (r, fs1)"
    and "exec env (secondary_command env videoId) fs1 = (r2, fs2)"
  shows "method2 env videoId w =
     (case exec_error r of
        None \<Rightarrow> (await_transcript (script_result env (stdout r)),
                 w\<lparr>files := fs1, calls := calls w @ [Exec (primary_command env videoId)]\<rparr>)
      | Some e \<Rightarrow>
          (await_transcript (case exec_error r2 of Some e2 \<Rightarrow> Inl e | None \<Rightarrow> script_result env (stdout r2)),
           w\<lparr>files := fs2,
             calls := calls w @ [Exec (primary_command env videoId), Exec (secondary_command env videoId)]\<rparr>))"
  using assms by (simp add: method2_def exec_call_def split: option.splits)

lemma log_length_ok: "log_length t = Inr () \<longleftrightarrow> (\<exists>v. t = Some v \<and> loggable v)"
proof (cases t)
  case None
  then show ?thesis by (simp add: log_length_def)
next
  case (Some v)
  show ?thesis
  proof (cases v)
    case (JObj kvs)
    show ?thesis
    proof (cases "map_of kvs ''length''")
      case None
      with Some JObj show ?thesis by (simp add: log_length_def loggable_def)
    next
      case (Some l)
      with \<open>t = Some v\<close> JObj toString_fails(1)[of l] show ?thesis
        by (auto simp: log_length_def loggable_def split: sum.splits)
    qed
  qed (use Some in \<open>simp_all add: log_length_def loggable_def\<close>)
qed

lemma log_length_TypeError: "log_length t = Inl e \<Longrightarrow> e = TypeError"
  by (auto simp: log_length_def split: option.splits json.splits sum.splits dest: toString_TypeError(1))

lemma await_Returned: "await_transcript s = Returned v \<longleftrightarrow> s = Inr (Some v) \<and> loggable v"
proof (cases s)
  case (Inl e)
  then show ?thesis by (simp add: await_transcript_def)
next
  case (Inr t)
  show ?thesis
  proof (cases "log_length t")
    case (Inl e)
    with Inr log_length_ok[of t] show ?thesis by (auto simp: await_transcript_def)
  next
    case (Inr u)
    with \<open>s = Inr t\<close> log_length_ok[of t] show ?thesis by (auto simp: await_transcript_def)
  qed
qed

lemma await_script_result:
  "await_transcript (script_result env out) = Returned v \<longleftrightarrow> script_success env out = Some v"
proof (cases "JSON_parse env out")
  case None
  then show ?thesis by (simp add: await_Returned script_result_def script_success_def)
next
  case (Some result)
  then show ?thesis
    by (cases result)
       (auto simp: await_Returned script_result_def script_success_def
             split: sum.splits option.splits if_splits)
qed

lemma await_Inl: "await_transcript (Inl e) = Caught e"
  by (simp add: await_transcript_def)

lemma method1_world: "snd (method1 env videoId w) = w\<lparr>calls := calls w @ [FetchTranscript videoId]\<rparr>"
  by (simp add: method1_def fetch_call_def split: sum.splits option.splits)

lemma method3_calls:
  "\<exists>rest. calls (snd (method3 env videoId w)) = calls w @ HttpGet (videoUrl videoId) # rest"
  by (simp add: method3_def get_call_def Let_def split: sum.splits json.splits option.splits prod.splits)

lemma transcribeAudio_calls:
  "\<exists>rest. calls (snd (transcribeAudio env videoId w)) = calls w @ rest"
proof -
  obtain r fs1 where d: "exec env (download_command env videoId) (files w - {expectedAudioFile env videoId}) = (r, fs1)"
    by (cases "exec env (download_command env videoId) (files w - {expectedAudioFile env videoId})")
  obtain r2 fs2 where t: "exec env (whisper_command env videoId) fs1 = (r2, fs2)"
    by (cases "exec env (whisper_command env videoId) fs1")
  show ?thesis by (simp add: transcribeAudio_unfold[OF d t] split: option.splits)
qed

lemma getTranscript_cases:
  "getTranscript env videoId w =
     (if is_Returned (fst (method1 env videoId w))
      then (case fst (method1 env videoId w) of Returned t \<Rightarrow> (Inr t, snd (method1 env videoId w)))
      else let w1 = snd (method1 env videoId w) in
      if is_Returned (fst (method2 env videoId w1))
      then (case fst (method2 env videoId w1) of Returned t \<Rightarrow> (Inr t, snd (method2 env videoId w1)))
      else let w2 = snd (method2 env videoId w1) in
      if is_Returned (fst (method3 env videoId w2))
      then (case fst (method3 env videoId w2) of Returned t \<Rightarrow> (Inr t, snd (method3 env videoId w2)))
      else let w3 = snd (method3 env videoId w2) in
      (case fst (transcribeAudio env videoId w3) of
         Inr t \<Rightarrow> (Inr (JStr t), snd (transcribeAudio env videoId w3))
       | Inl err \<Rightarrow> (Inl (Error ''Could not fetch transcript from any source''),
                     snd (transcribeAudio env videoId w3))))"
  by (simp add: getTranscript_def Let_def split: prod.splits attempt.splits sum.splits)

lemma getTranscript_reaches_method3:
  assumes "\<not> is_Returned (fst (method1 env videoId w))"
    and "\<not> is_Returned (fst (method2 env videoId (snd (method1 env videoId w))))"
  shows "\<exists>rest. calls (snd (getTranscript env videoId w))
           = calls (snd (method2 env videoId (snd (method1 env videoId w)))) @ HttpGet (videoUrl videoId) # rest"
proof -
  let ?w2 = "snd (method2 env videoId (snd (method1 env videoId w)))"
  obtain r3 where 3: "calls (snd (method3 env videoId ?w2)) = calls ?w2 @ HttpGet (videoUrl videoId) # r3"
    using method3_calls by blast
  obtain r4 where 4: "calls (snd (transcribeAudio env videoId (snd (method3 env videoId ?w2))))
       = calls (snd (method3 env videoId ?w2)) @ r4"
    using transcribeAudio_calls by blast
  show ?thesis
    using assms 3 4
    by (simp add: getTranscript_cases Let_def split: attempt.splits sum.splits)
qed

lemmas eval_methods = getTranscript_def method1_def method2_def method3_def transcribeAudio_def
  fetch_call_def exec_call_def get_call_def cleanup_eq existsSync_def await_transcript_def
  log_length_def script_result_def rejection_of_def parse_segments_def join_values_def





lemma event_text_no_segs: "map_of extra ''segs'' = None \<Longrightarrow> event_text (JObj extra) = Inr []"
  by (simp add: event_text_def)






text \<open>
  Claim C3. Whatever the subprocesses do, the audio file does not exist when
  \<^verbatim>\<open>transcribeAudio\<close> has completed, with success or with failure. A stale file at the
  path is deleted before the download, so the outcome does not depend on its presence; when
  the download ends with an error, what it left at the path is deleted before the error
  propagates; after the transcription subprocess has returned the file is deleted, whatever
  the subprocess reported. (Deleting is taken to succeed, as \<^verbatim>\<open>unlinkSync\<close> does on a
  regular file.)
\<close>

theorem transcribeAudio_cleanup:
  "expectedAudioFile env videoId \<notin> files (snd (transcribeAudio env videoId w))
   \<and> transcribeAudio env videoId (w\<lparr>files := insert (expectedAudioFile env videoId) (files w)\<rparr>)
       = transcribeAudio env videoId (w\<lparr>files := files w - {expectedAudioFile env videoId}\<rparr>)
   \<and> (exec env (download_command env videoId) (files w - {expectedAudioFile env videoId}) = (r, fs1)
        \<and> exec_error r = Some e
      \<longrightarrow> transcribeAudio env videoId w =
            (Inl e, w\<lparr>files := fs1 - {expectedAudioFile env videoId},
                       calls := calls w @ [Exec (download_command env videoId)]\<rparr>))
   \<and> (exec env (download_command env videoId) (files w - {expectedAudioFile env videoId}) = (r, fs1)
        \<and> exec_error r = None \<and> expectedAudioFile env videoId \<in> fs1
        \<and> exec env (whisper_command env videoId) fs1 = (r2, fs2)
      \<longrightarrow> snd (transcribeAudio env videoId w) =
            w\<lparr>files := fs2 - {expectedAudioFile env videoId},
              calls := calls w @ [Exec (download_command env videoId), Exec (whisper_command env videoId)]\<rparr>)"
proof (intro conjI impI)
  obtain r' fs1' where d: "exec env (download_command env videoId) (files w - {expectedAudioFile env videoId}) = (r', fs1')"
    by (cases "exec env (download_command env videoId) (files w - {expectedAudioFile env videoId})")
  obtain r2' fs2' where t: "exec env (whisper_command env videoId) fs1' = (r2', fs2')"
    by (cases "exec env (whisper_command env videoId) fs1'")
  show "expectedAudioFile env videoId \<notin> files (snd (transcribeAudio env videoId w))"
    by (simp add: transcribeAudio_unfold[OF d t] split: option.splits)
next
  show "transcribeAudio env videoId (w\<lparr>files := insert (expectedAudioFile env videoId) (files w)\<rparr>)
       = transcribeAudio env videoId (w\<lparr>files := files w - {expectedAudioFile env videoId}\<rparr>)"
    by (simp add: transcribeAudio_def cleanup_eq exec_call_def)
next
  assume "exec env (download_command env videoId) (files w - {expectedAudioFile env videoId}) = (r, fs1)
        \<and> exec_error r = Some e"
  then show "transcribeAudio env videoId w =
            (Inl e, w\<lparr>files := fs1 - {expectedAudioFile env videoId},
                       calls := calls w @ [Exec (download_command env videoId)]\<rparr>)"
    by (cases "exec env (whisper_command env videoId) fs1") (simp add: transcribeAudio_unfold)
next
  assume "exec env (download_command env videoId) (files w - {expectedAudioFile env videoId}) = (r, fs1)
        \<and> exec_error r = None \<and> expectedAudioFile env videoId \<in> fs1
        \<and> exec env (whisper_command env videoId) fs1 = (r2, fs2)"
  then show "snd (transcribeAudio env videoId w) =
            w\<lparr>files := fs2 - {expectedAudioFile env videoId},
              calls := calls w @ [Exec (download_command env videoId), Exec (whisper_command env videoId)]\<rparr>"
    by (simp add: transcribeAudio_unfold)
qed

theorem transcribeAudio_cleanup_witness:
  "exec failing_env (download_command failing_env ''dQw4w9WgXcQ'')
       ({''/app/controllers/../temp_dQw4w9WgXcQ.mp3'', ''/app/notes.txt''} - {expectedAudioFile failing_env ''dQw4w9WgXcQ''})
     = (dies ''Command failed'', {''/app/notes.txt''})
   \<and> exec_error (dies ''Command failed'') = Some (ExternalError ''Command failed'')
   \<and> fst (transcribeAudio failing_env ''dQw4w9WgXcQ''
        \<lparr>files = {''/app/controllers/../temp_dQw4w9WgXcQ.mp3'', ''/app/notes.txt''}, calls = []\<rparr>)
     = Inl (ExternalError ''Command failed'')
   \<and> files (snd (transcribeAudio failing_env ''dQw4w9WgXcQ''
        \<lparr>files = {''/app/controllers/../temp_dQw4w9WgXcQ.mp3'', ''/app/notes.txt''}, calls = []\<rparr>))
     = {''/app/notes.txt''}
   \<and> exec silent_env (download_command silent_env ''dQw4w9WgXcQ'') ({} - {expectedAudioFile silent_env ''dQw4w9WgXcQ''})
     = (prints ''[]'', {''/app/controllers/../temp_dQw4w9WgXcQ.mp3''})
   \<and> exec_error (prints ''[]'') = None
   \<and> expectedAudioFile silent_env ''dQw4w9WgXcQ'' \<in> {''/app/controllers/../temp_dQw4w9WgXcQ.mp3''}
   \<and> exec silent_env (whisper_command silent_env ''dQw4w9WgXcQ'') {''/app/controllers/../temp_dQw4w9WgXcQ.mp3''}
     = (prints ''[]'', {''/app/controllers/../temp_dQw4w9WgXcQ.mp3''})
   \<and> files (snd (transcribeAudio silent_env ''dQw4w9WgXcQ'' w0)) = {}"
proof -
  let ?p = "''/app/controllers/../temp_dQw4w9WgXcQ.mp3''"
  let ?w = "\<lparr>files = {?p, ''/app/notes.txt''}, calls = []\<rparr>"
  have p1: "expectedAudioFile failing_env ''dQw4w9WgXcQ'' = ?p"
    and p2: "expectedAudioFile silent_env ''dQw4w9WgXcQ'' = ?p"
    by (simp_all add: eval_world)
  have h1: "exec failing_env (download_command failing_env ''dQw4w9WgXcQ'')
       (files ?w - {expectedAudioFile failing_env ''dQw4w9WgXcQ''})
     = (dies ''Command failed'', {''/app/notes.txt''})
     \<and> exec_error (dies ''Command failed'') = Some (ExternalError ''Command failed'')"
    unfolding p1 by (auto simp: failing_env_def dies_def)
  have r1: "transcribeAudio failing_env ''dQw4w9WgXcQ'' ?w =
      (Inl (ExternalError ''Command failed''),
       ?w\<lparr>files := {''/app/notes.txt''} - {expectedAudioFile failing_env ''dQw4w9WgXcQ''},
           calls := calls ?w @ [Exec (download_command failing_env ''dQw4w9WgXcQ'')]\<rparr>)"
    by (rule transcribeAudio_cleanup[THEN conjunct2, THEN conjunct2, THEN conjunct1, THEN mp, OF h1])
  have h2: "exec silent_env (download_command silent_env ''dQw4w9WgXcQ'')
       (files w0 - {expectedAudioFile silent_env ''dQw4w9WgXcQ''}) = (prints ''[]'', {?p})
     \<and> exec_error (prints ''[]'') = None \<and> expectedAudioFile silent_env ''dQw4w9WgXcQ'' \<in> {?p}
     \<and> exec silent_env (whisper_command silent_env ''dQw4w9WgXcQ'') {?p} = (prints ''[]'', {?p})"
    unfolding p2 by (simp add: silent_env_def failing_env_def prints_def w0_def)
  have r2: "snd (transcribeAudio silent_env ''dQw4w9WgXcQ'' w0) =
      w0\<lparr>files := {?p} - {expectedAudioFile silent_env ''dQw4w9WgXcQ''},
         calls := calls w0 @ [Exec (download_command silent_env ''dQw4w9WgXcQ''),
                              Exec (whisper_command silent_env ''dQw4w9WgXcQ'')]\<rparr>"
    by (rule transcribeAudio_cleanup[THEN conjunct2, THEN conjunct2, THEN conjunct2, THEN mp, OF h2])
  show ?thesis
    using h1 h2 unfolding r1 r2 p1 p2 by (simp add: w0_def)
qed

text \<open>
  Claim C8, as amended. A run of \<^verbatim>\<open>transcribeAudio\<close> that completes (the subprocesses
  return and deleting the file succeeds) fails in exactly these cases: the download
  tool ends with an error, or the audio file is absent after it; the speech-to-text
  subprocess ends with an error, or prints what does not parse as JSON; the parsed output
  carries a truthy \<^verbatim>\<open>error\<close> field, or is not an array, or is an array with an element
  that is \<^verbatim>\<open>null\<close> or whose \<^verbatim>\<open>text\<close> does not convert to a string (an object with an own
  property \<^verbatim>\<open>toString\<close>, itself or inside arrays). A subprocess that ends without error
  and prints an empty array makes the function succeed with the empty text.
\<close>

theorem transcribeAudio_failures:
  "exec env (download_command env videoId) (files w - {expectedAudioFile env videoId}) = (r, fs1)
   \<and> exec env (whisper_command env videoId) fs1 = (r2, fs2)
   \<longrightarrow>
     (isl (fst (transcribeAudio env videoId w)) \<longleftrightarrow>
        exec_error r \<noteq> None \<or> expectedAudioFile env videoId \<notin> fs1
        \<or> exec_error r2 \<noteq> None \<or> JSON_parse env (stdout r2) = None
        \<or> (\<exists>v. JSON_parse env (stdout r2) = Some v \<and> (has_error v \<or> \<not> segment_array v)))
     \<and> (\<forall>e. exec_error r = Some e \<longrightarrow> fst (transcribeAudio env videoId w) = Inl e)
     \<and> (exec_error r = None \<and> expectedAudioFile env videoId \<notin> fs1
          \<longrightarrow> fst (transcribeAudio env videoId w) = Inl (Error ''Audio file not created after yt-dlp run''))
     \<and> (\<forall>e. exec_error r = None \<and> expectedAudioFile env videoId \<in> fs1 \<and> exec_error r2 = Some e
          \<longrightarrow> fst (transcribeAudio env videoId w) = Inl e)
     \<and> (exec_error r = None \<and> expectedAudioFile env videoId \<in> fs1 \<and> exec_error r2 = None
          \<longrightarrow> fst (transcribeAudio env videoId w) = parse_segments env (stdout r2))
     \<and> (exec_error r = None \<and> expectedAudioFile env videoId \<in> fs1 \<and> exec_error r2 = None
          \<and> JSON_parse env (stdout r2) = Some (JArr [])
          \<longrightarrow> fst (transcribeAudio env videoId w) = Inr [])"
proof (intro impI, elim conjE)
  assume d: "exec env (download_command env videoId) (files w - {expectedAudioFile env videoId}) = (r, fs1)"
    and t: "exec env (whisper_command env videoId) fs1 = (r2, fs2)"
  note u = transcribeAudio_unfold[OF d t]
  have p: "isl (parse_segments env (stdout r2)) \<longleftrightarrow>
        JSON_parse env (stdout r2) = None
        \<or> (\<exists>v. JSON_parse env (stdout r2) = Some v \<and> (has_error v \<or> \<not> segment_array v))"
    by (simp add: parse_segments_fails_iff split: option.splits)
  have 1: "isl (fst (transcribeAudio env videoId w)) \<longleftrightarrow>
        exec_error r \<noteq> None \<or> expectedAudioFile env videoId \<notin> fs1
        \<or> exec_error r2 \<noteq> None \<or> JSON_parse env (stdout r2) = None
        \<or> (\<exists>v. JSON_parse env (stdout r2) = Some v \<and> (has_error v \<or> \<not> segment_array v))"
    unfolding p[symmetric] u by (cases "exec_error r"; cases "exec_error r2") auto
  have 2: "\<forall>e. exec_error r = Some e \<longrightarrow> fst (transcribeAudio env videoId w) = Inl e"
    by (simp add: u)
  have 3: "exec_error r = None \<and> expectedAudioFile env videoId \<notin> fs1
          \<longrightarrow> fst (transcribeAudio env videoId w) = Inl (Error ''Audio file not created after yt-dlp run'')"
    by (simp add: u)
  have 4: "\<forall>e. exec_error r = None \<and> expectedAudioFile env videoId \<in> fs1 \<and> exec_error r2 = Some e
          \<longrightarrow> fst (transcribeAudio env videoId w) = Inl e"
    by (simp add: u)
  have 5: "exec_error r = None \<and> expectedAudioFile env videoId \<in> fs1 \<and> exec_error r2 = None
          \<longrightarrow> fst (transcribeAudio env videoId w) = parse_segments env (stdout r2)"
    by (simp add: u)
  have 6: "exec_error r = None \<and> expectedAudioFile env videoId \<in> fs1 \<and> exec_error r2 = None
          \<and> JSON_parse env (stdout r2) = Some (JArr [])
          \<longrightarrow> fst (transcribeAudio env videoId w) = Inr []"
    by (simp add: u parse_segments_empty)
  show "(isl (fst (transcribeAudio env videoId w)) \<longleftrightarrow>
        exec_error r \<noteq> None \<or> expectedAudioFile env videoId \<notin> fs1
        \<or> exec_error r2 \<noteq> None \<or> JSON_parse env (stdout r2) = None
        \<or> (\<exists>v. JSON_parse env (stdout r2) = Some v \<and> (has_error v \<or> \<not> segment_array v)))
     \<and> (\<forall>e. exec_error r = Some e \<longrightarrow> fst (transcribeAudio env videoId w) = Inl e)
     \<and> (exec_error r = None \<and> expectedAudioFile env videoId \<notin> fs1
          \<longrightarrow> fst (transcribeAudio env videoId w) = Inl (Error ''Audio file not created after yt-dlp run''))
     \<and> (\<forall>e. exec_error r = None \<and> expectedAudioFile env videoId \<in> fs1 \<and> exec_error r2 = Some e
          \<longrightarrow> fst (transcribeAudio env videoId w) = Inl e)
     \<and> (exec_error r = None \<and> expectedAudioFile env videoId \<in> fs1 \<and> exec_error r2 = None
          \<longrightarrow> fst (transcribeAudio env videoId w) = parse_segments env (stdout r2))
     \<and> (exec_error r = None \<and> expectedAudioFile env videoId \<in> fs1 \<and> exec_error r2 = None
          \<and> JSON_parse env (stdout r2) = Some (JArr [])
          \<longrightarrow> fst (transcribeAudio env videoId w) = Inr [])"
    by (intro conjI 1 2 3 4 5 6)
qed

theorem transcribeAudio_failures_witness:
  "exec failing_env (download_command failing_env ''dQw4w9WgXcQ'')
        (files w0 - {expectedAudioFile failing_env ''dQw4w9WgXcQ''}) = (dies ''Command failed'', {})
   \<and> exec failing_env (whisper_command failing_env ''dQw4w9WgXcQ'') {} = (dies ''Command failed'', {})
   \<and> exec_error (dies ''Command failed'') = Some (ExternalError ''Command failed'')
   \<and> isl (fst (transcribeAudio failing_env ''dQw4w9WgXcQ'' w0))
   \<and> fst (transcribeAudio failing_env ''dQw4w9WgXcQ'' w0) = Inl (ExternalError ''Command failed'')
   \<and> exec silent_env (download_command silent_env ''dQw4w9WgXcQ'')
        (files w0 - {expectedAudioFile silent_env ''dQw4w9WgXcQ''})
        = (prints ''[]'', {expectedAudioFile silent_env ''dQw4w9WgXcQ''})
   \<and> exec silent_env (whisper_command silent_env ''dQw4w9WgXcQ'') {expectedAudioFile silent_env ''dQw4w9WgXcQ''}
        = (prints ''[]'', {expectedAudioFile silent_env ''dQw4w9WgXcQ''})
   \<and> exec_error (prints ''[]'') = None
   \<and> JSON_parse silent_env (stdout (prints ''[]'')) = Some (JArr [])
   \<and> \<not> isl (fst (transcribeAudio silent_env ''dQw4w9WgXcQ'' w0))
   \<and> fst (transcribeAudio silent_env ''dQw4w9WgXcQ'' w0) = parse_segments silent_env ''[]''
   \<and> exec odd_text_env (download_command odd_text_env ''dQw4w9WgXcQ'')
        (files w0 - {expectedAudioFile odd_text_env ''dQw4w9WgXcQ''})
        = (prints odd_text_output, {expectedAudioFile odd_text_env ''dQw4w9WgXcQ''})
   \<and> exec odd_text_env (whisper_command odd_text_env ''dQw4w9WgXcQ'') {expectedAudioFile odd_text_env ''dQw4w9WgXcQ''}
        = (prints odd_text_output, {expectedAudioFile odd_text_env ''dQw4w9WgXcQ''})
   \<and> JSON_parse odd_text_env (stdout (prints odd_text_output))
        = Some (JArr [JObj [(''text'', JObj [(''toString'', JNum ''1'')])]])
   \<and> \<not> segment_array (JArr [JObj [(''text'', JObj [(''toString'', JNum ''1'')])]])
   \<and> isl (fst (transcribeAudio odd_text_env ''dQw4w9WgXcQ'' w0))
   \<and> fst (transcribeAudio odd_text_env ''dQw4w9WgXcQ'' w0) = Inl TypeError"
proof -
  have h1: "exec failing_env (download_command failing_env ''dQw4w9WgXcQ'')
        (files w0 - {expectedAudioFile failing_env ''dQw4w9WgXcQ''}) = (dies ''Command failed'', {})
     \<and> exec failing_env (whisper_command failing_env ''dQw4w9WgXcQ'') {} = (dies ''Command failed'', {})"
    by (simp add: failing_env_def w0_def)
  have e1: "exec_error (dies ''Command failed'') = Some (ExternalError ''Command failed'')"
    by (simp add: dies_def)
  note T1 = transcribeAudio_failures[THEN mp, OF h1]
  have r1: "fst (transcribeAudio failing_env ''dQw4w9WgXcQ'' w0) = Inl (ExternalError ''Command failed'')"
    using T1[THEN conjunct2, THEN conjunct1] e1 by simp
  have r1': "isl (fst (transcribeAudio failing_env ''dQw4w9WgXcQ'' w0))"
    using T1[THEN conjunct1] e1 by simp
  have h2: "exec silent_env (download_command silent_env ''dQw4w9WgXcQ'')
        (files w0 - {expectedAudioFile silent_env ''dQw4w9WgXcQ''})
        = (prints ''[]'', {expectedAudioFile silent_env ''dQw4w9WgXcQ''})
     \<and> exec silent_env (whisper_command silent_env ''dQw4w9WgXcQ'') {expectedAudioFile silent_env ''dQw4w9WgXcQ''}
        = (prints ''[]'', {expectedAudioFile silent_env ''dQw4w9WgXcQ''})"
    by (simp add: eval_world)
  have e2: "exec_error (prints ''[]'') = None" "stdout (prints ''[]'') = ''[]''"
    by (simp_all add: prints_def)
  have j2: "JSON_parse silent_env (stdout (prints ''[]'')) = Some (JArr [])"
    by (simp add: silent_env_def prints_def)
  note T2 = transcribeAudio_failures[THEN mp, OF h2]
  have r2: "fst (transcribeAudio silent_env ''dQw4w9WgXcQ'' w0) = parse_segments silent_env ''[]''"
    using T2[THEN conjunct2, THEN conjunct2, THEN conjunct2, THEN conjunct2, THEN conjunct1] e2 by simp
  have r2': "\<not> isl (fst (transcribeAudio silent_env ''dQw4w9WgXcQ'' w0))"
    using T2[THEN conjunct2, THEN conjunct2, THEN conjunct2, THEN conjunct2, THEN conjunct2] e2 j2 by simp
  have h3: "exec odd_text_env (download_command odd_text_env ''dQw4w9WgXcQ'')
        (files w0 - {expectedAudioFile odd_text_env ''dQw4w9WgXcQ''})
        = (prints odd_text_output, {expectedAudioFile odd_text_env ''dQw4w9WgXcQ''})
     \<and> exec odd_text_env (whisper_command odd_text_env ''dQw4w9WgXcQ'') {expectedAudioFile odd_text_env ''dQw4w9WgXcQ''}
        = (prints odd_text_output, {expectedAudioFile odd_text_env ''dQw4w9WgXcQ''})"
    by (simp add: eval_world)
  have j3: "JSON_parse odd_text_env (stdout (prints odd_text_output))
        = Some (JArr [JObj [(''text'', JObj [(''toString'', JNum ''1'')])]])"
    by (simp add: odd_text_env_def prints_def)
  have n3: "\<not> segment_array (JArr [JObj [(''text'', JObj [(''toString'', JNum ''1'')])]])"
    by (simp add: segment_array_def segment_ok_def)
  note T3 = transcribeAudio_failures[THEN mp, OF h3]
  have r3': "isl (fst (transcribeAudio odd_text_env ''dQw4w9WgXcQ'' w0))"
    using T3[THEN conjunct1] j3 n3 by simp
  have p3: "parse_segments odd_text_env odd_text_output = Inl TypeError"
    by (simp add: parse_segments_def join_values_def odd_text_env_def)
  have r3: "fst (transcribeAudio odd_text_env ''dQw4w9WgXcQ'' w0) = Inl TypeError"
    using T3[THEN conjunct2, THEN conjunct2, THEN conjunct2, THEN conjunct2, THEN conjunct1] e2 p3
    by (simp add: prints_def eval_world)
  show ?thesis
    using h1 e1 r1 r1' h2 e2(1) j2 r2 r2' h3 j3 n3 r3' r3 by (intro conjI) simp_all
qed

text \<open>
  Against claim C8 as the specification states it: the download succeeds, the speech-to-text
  subprocess ends without error and prints an empty array, and \<^verbatim>\<open>transcribeAudio\<close> succeeds
  with the empty text.
\<close>

theorem transcribeAudio_empty_segments_counterexample:
  "exec_error (fst (exec silent_env (download_command silent_env ''dQw4w9WgXcQ'') {})) = None
   \<and> exec_error (fst (exec silent_env (whisper_command silent_env ''dQw4w9WgXcQ'')
                        {expectedAudioFile silent_env ''dQw4w9WgXcQ''})) = None
   \<and> JSON_parse silent_env
        (stdout (fst (exec silent_env (whisper_command silent_env ''dQw4w9WgXcQ'')
                        {expectedAudioFile silent_env ''dQw4w9WgXcQ''}))) = Some (JArr [])
   \<and> fst (transcribeAudio silent_env ''dQw4w9WgXcQ'' w0) = Inr []"
  by (simp add: transcribeAudio_def cleanup_eq exec_call_def existsSync_def parse_segments_def
        join_values_def eval_world)

text \<open>
  Claim C9. In method 2, when the subprocess of the virtual environment's interpreter ends
  with an error and the subprocess of the global \<^verbatim>\<open>python3\<close> ends with an error too, the
  method fails with the error of the first; the error of the second appears nowhere in the
  outcome.
\<close>

theorem method2_reports_primary_error:
  "exec env (primary_command env videoId) (files w) = (r, fs1) \<and> exec_error r = Some e1
   \<and> exec env (secondary_command env videoId) fs1 = (r2, fs2) \<and> exec_error r2 = Some e2
   \<longrightarrow> method2 env videoId w =
         (Caught e1,
          w\<lparr>files := fs2,
            calls := calls w @ [Exec (primary_command env videoId), Exec (secondary_command env videoId)]\<rparr>)"
  by (auto simp: method2_unfold await_Inl)

theorem method2_reports_primary_error_witness:
  "exec two_errors_env (primary_command two_errors_env ''dQw4w9WgXcQ'') (files w0)
      = (dies ''venv python: exit 1'', {})
   \<and> exec_error (dies ''venv python: exit 1'') = Some (ExternalError ''venv python: exit 1'')
   \<and> exec two_errors_env (secondary_command two_errors_env ''dQw4w9WgXcQ'') {}
      = (dies ''python3: not found'', {})
   \<and> exec_error (dies ''python3: not found'') = Some (ExternalError ''python3: not found'')
   \<and> fst (method2 two_errors_env ''dQw4w9WgXcQ'' w0) = Caught (ExternalError ''venv python: exit 1'')"
proof -
  have h: "exec two_errors_env (primary_command two_errors_env ''dQw4w9WgXcQ'') (files w0)
      = (dies ''venv python: exit 1'', {})
   \<and> exec_error (dies ''venv python: exit 1'') = Some (ExternalError ''venv python: exit 1'')
   \<and> exec two_errors_env (secondary_command two_errors_env ''dQw4w9WgXcQ'') {}
      = (dies ''python3: not found'', {})
   \<and> exec_error (dies ''python3: not found'') = Some (ExternalError ''python3: not found'')"
    by (simp add: eval_world)
  from method2_reports_primary_error[THEN mp, OF h]
  have "fst (method2 two_errors_env ''dQw4w9WgXcQ'' w0) = Caught (ExternalError ''venv python: exit 1'')"
    by simp
  with h show ?thesis by (intro conjI) simp_all
qed

text \<open>
  Claim C2, as amended. When none of the first three methods returns and
  \<^verbatim>\<open>transcribeAudio\<close> fails, \<^verbatim>\<open>getTranscript\<close> fails, and it fails in no other case; its
  error is always the fixed \<^verbatim>\<open>Could not fetch transcript from any source\<close>. The failures
  of all four methods, the fourth included, are caught and logged; none of their causes is
  reported.
\<close>

theorem getTranscript_all_fail:
  "(\<forall>e. fst (getTranscript env videoId w) = Inl e
        \<longrightarrow> e = Error ''Could not fetch transcript from any source'')
   \<and> (isl (fst (getTranscript env videoId w)) \<longleftrightarrow>
        (let w1 = snd (method1 env videoId w);
             w2 = snd (method2 env videoId w1);
             w3 = snd (method3 env videoId w2)
         in \<not> is_Returned (fst (method1 env videoId w))
            \<and> \<not> is_Returned (fst (method2 env videoId w1))
            \<and> \<not> is_Returned (fst (method3 env videoId w2))
            \<and> isl (fst (transcribeAudio env videoId w3))))"
  by (auto simp: getTranscript_cases Let_def split: attempt.splits sum.splits)

theorem getTranscript_all_fail_witness:
  "(let w1 = snd (method1 failing_env ''dQw4w9WgXcQ'' w0);
        w2 = snd (method2 failing_env ''dQw4w9WgXcQ'' w1);
        w3 = snd (method3 failing_env ''dQw4w9WgXcQ'' w2)
    in \<not> is_Returned (fst (method1 failing_env ''dQw4w9WgXcQ'' w0))
       \<and> \<not> is_Returned (fst (method2 failing_env ''dQw4w9WgXcQ'' w1))
       \<and> \<not> is_Returned (fst (method3 failing_env ''dQw4w9WgXcQ'' w2))
       \<and> isl (fst (transcribeAudio failing_env ''dQw4w9WgXcQ'' w3)))
   \<and> isl (fst (getTranscript failing_env ''dQw4w9WgXcQ'' w0))
   \<and> fst (getTranscript failing_env ''dQw4w9WgXcQ'' w0)
       = Inl (Error ''Could not fetch transcript from any source'')"
proof -
  note T = getTranscript_all_fail[of failing_env "''dQw4w9WgXcQ''" w0]
  have h: "(let w1 = snd (method1 failing_env ''dQw4w9WgXcQ'' w0);
        w2 = snd (method2 failing_env ''dQw4w9WgXcQ'' w1);
        w3 = snd (method3 failing_env ''dQw4w9WgXcQ'' w2)
    in \<not> is_Returned (fst (method1 failing_env ''dQw4w9WgXcQ'' w0))
       \<and> \<not> is_Returned (fst (method2 failing_env ''dQw4w9WgXcQ'' w1))
       \<and> \<not> is_Returned (fst (method3 failing_env ''dQw4w9WgXcQ'' w2))
       \<and> isl (fst (transcribeAudio failing_env ''dQw4w9WgXcQ'' w3)))"
    by (simp add: eval_methods eval_world)
  from T[THEN conjunct2, THEN iffD2, OF h]
  have i: "isl (fst (getTranscript failing_env ''dQw4w9WgXcQ'' w0))" .
  then obtain e where e: "fst (getTranscript failing_env ''dQw4w9WgXcQ'' w0) = Inl e"
    by (auto simp: isl_def)
  with T[THEN conjunct1] have "e = Error ''Could not fetch transcript from any source''" by blast
  with e h i show ?thesis by (intro conjI) simp_all
qed

text \<open>
  Against claim C2 as the specification states it: every collaborator fails, the fourth
  method fails with the error of the download tool, and \<^verbatim>\<open>getTranscript\<close> reports the fixed
  error, not that cause.
\<close>

theorem getTranscript_reported_error_counterexample:
  "fst (method1 failing_env ''dQw4w9WgXcQ'' w0) = Caught (ExternalError ''Transcript is disabled'')
   \<and> fst (method2 failing_env ''dQw4w9WgXcQ'' (snd (method1 failing_env ''dQw4w9WgXcQ'' w0)))
       = Caught (ExternalError ''Command failed'')
   \<and> fst (method3 failing_env ''dQw4w9WgXcQ''
        (snd (method2 failing_env ''dQw4w9WgXcQ'' (snd (method1 failing_env ''dQw4w9WgXcQ'' w0)))))
       = Caught (ExternalError ''Network Error'')
   \<and> fst (transcribeAudio failing_env ''dQw4w9WgXcQ''
        (snd (method3 failing_env ''dQw4w9WgXcQ''
          (snd (method2 failing_env ''dQw4w9WgXcQ'' (snd (method1 failing_env ''dQw4w9WgXcQ'' w0)))))))
       = Inl (ExternalError ''Command failed'')
   \<and> fst (getTranscript failing_env ''dQw4w9WgXcQ'' w0)
       = Inl (Error ''Could not fetch transcript from any source'')
   \<and> Error ''Could not fetch transcript from any source'' \<noteq> ExternalError ''Command failed''"
  by (simp add: getTranscript_def method1_def method2_def method3_def transcribeAudio_def
        fetch_call_def exec_call_def get_call_def cleanup_eq existsSync_def await_transcript_def
        eval_world)

text \<open>
  Claim C7, as amended. Method 2 returns a transcript exactly when the subprocess of the
  primary interpreter ends without error, or, that one having ended with an error, the
  subprocess of the secondary interpreter ends without error, and the output of that
  subprocess parses to a value with a truthy \<^verbatim>\<open>success\<close> flag and a \<^verbatim>\<open>transcript\<close> that is
  neither \<^verbatim>\<open>undefined\<close> nor \<^verbatim>\<open>null\<close> and whose length can be written to the log line
  (an object whose \<^verbatim>\<open>length\<close> does not convert to a string makes the log line throw).
  Every text transcript is such a one, the empty text too. The secondary interpreter is run
  only when the primary subprocess ended with an error. On every other outcome the
  orchestrator goes on to method 3: its next call is the request for the watch page.
\<close>

theorem method2_success_criterion:
  "exec env (primary_command env videoId) (files w) = (r, fs1)
   \<and> exec env (secondary_command env videoId) fs1 = (r2, fs2)
   \<longrightarrow>
     (\<forall>v. fst (method2 env videoId w) = Returned v \<longleftrightarrow>
        (exec_error r = None \<and> script_success env (stdout r) = Some v)
        \<or> (exec_error r \<noteq> None \<and> exec_error r2 = None \<and> script_success env (stdout r2) = Some v))
     \<and> calls (snd (method2 env videoId w)) =
         calls w @ (if exec_error r = None
                    then [Exec (primary_command env videoId)]
                    else [Exec (primary_command env videoId), Exec (secondary_command env videoId)])
     \<and> (\<forall>w'. w = snd (method1 env videoId w') \<and> \<not> is_Returned (fst (method1 env videoId w'))
              \<and> \<not> is_Returned (fst (method2 env videoId w))
          \<longrightarrow> (\<exists>rest. calls (snd (getTranscript env videoId w'))
                        = calls (snd (method2 env videoId w)) @ HttpGet (videoUrl videoId) # rest))
     \<and> (\<forall>out result flag s.
            JSON_parse env out = Some result \<and> get_prop result ''success'' = Inr flag
            \<and> truthy_opt flag \<and> get_prop result ''transcript'' = Inr (Some (JStr s))
          \<longrightarrow> script_success env out = Some (JStr s))"
proof (intro impI, elim conjE)
  assume p: "exec env (primary_command env videoId) (files w) = (r, fs1)"
    and s: "exec env (secondary_command env videoId) fs1 = (r2, fs2)"
  note u = method2_unfold[OF p s]
  have 1: "\<forall>v. fst (method2 env videoId w) = Returned v \<longleftrightarrow>
        (exec_error r = None \<and> script_success env (stdout r) = Some v)
        \<or> (exec_error r \<noteq> None \<and> exec_error r2 = None \<and> script_success env (stdout r2) = Some v)"
    unfolding u
    by (cases "exec_error r"; cases "exec_error r2") (auto simp: await_script_result await_Inl)
  have 2: "calls (snd (method2 env videoId w)) =
         calls w @ (if exec_error r = None
                    then [Exec (primary_command env videoId)]
                    else [Exec (primary_command env videoId), Exec (secondary_command env videoId)])"
    unfolding u by (cases "exec_error r") auto
  have 3: "\<forall>w'. w = snd (method1 env videoId w') \<and> \<not> is_Returned (fst (method1 env videoId w'))
              \<and> \<not> is_Returned (fst (method2 env videoId w))
          \<longrightarrow> (\<exists>rest. calls (snd (getTranscript env videoId w'))
                        = calls (snd (method2 env videoId w)) @ HttpGet (videoUrl videoId) # rest)"
    using getTranscript_reaches_method3 by blast
  have 4: "\<forall>out result flag s.
            JSON_parse env out = Some result \<and> get_prop result ''success'' = Inr flag
            \<and> truthy_opt flag \<and> get_prop result ''transcript'' = Inr (Some (JStr s))
          \<longrightarrow> script_success env out = Some (JStr s)"
    by (simp add: script_success_def loggable_def)
  show "(\<forall>v. fst (method2 env videoId w) = Returned v \<longleftrightarrow>
        (exec_error r = None \<and> script_success env (stdout r) = Some v)
        \<or> (exec_error r \<noteq> None \<and> exec_error r2 = None \<and> script_success env (stdout r2) = Some v))
     \<and> calls (snd (method2 env videoId w)) =
         calls w @ (if exec_error r = None
                    then [Exec (primary_command env videoId)]
                    else [Exec (primary_command env videoId), Exec (secondary_command env videoId)])
     \<and> (\<forall>w'. w = snd (method1 env videoId w') \<and> \<not> is_Returned (fst (method1 env videoId w'))
              \<and> \<not> is_Returned (fst (method2 env videoId w))
          \<longrightarrow> (\<exists>rest. calls (snd (getTranscript env videoId w'))
                        = calls (snd (method2 env videoId w)) @ HttpGet (videoUrl videoId) # rest))
     \<and> (\<forall>out result flag s.
            JSON_parse env out = Some result \<and> get_prop result ''success'' = Inr flag
            \<and> truthy_opt flag \<and> get_prop result ''transcript'' = Inr (Some (JStr s))
          \<longrightarrow> script_success env out = Some (JStr s))"
    by (intro conjI 1 2 3 4)
qed

theorem method2_success_criterion_witness:
  "exec empty_script_env (primary_command empty_script_env ''dQw4w9WgXcQ'') (files w0)
      = (prints empty_transcript_output, {})
   \<and> exec empty_script_env (secondary_command empty_script_env ''dQw4w9WgXcQ'') {}
      = (prints empty_transcript_output, {})
   \<and> exec_error (prints empty_transcript_output) = None
   \<and> script_success empty_script_env (stdout (prints empty_transcript_output)) = Some (JStr [])
   \<and> fst (method2 empty_script_env ''dQw4w9WgXcQ'' w0) = Returned (JStr [])
   \<and> calls (snd (method2 empty_script_env ''dQw4w9WgXcQ'' w0))
      = [Exec (primary_command empty_script_env ''dQw4w9WgXcQ'')]
   \<and> \<not> is_Returned (fst (method1 two_errors_env ''dQw4w9WgXcQ'' w0))
   \<and> \<not> is_Returned (fst (method2 two_errors_env ''dQw4w9WgXcQ'' (snd (method1 two_errors_env ''dQw4w9WgXcQ'' w0))))
   \<and> (\<exists>rest. calls (snd (getTranscript two_errors_env ''dQw4w9WgXcQ'' w0))
         = calls (snd (method2 two_errors_env ''dQw4w9WgXcQ'' (snd (method1 two_errors_env ''dQw4w9WgXcQ'' w0))))
           @ HttpGet (videoUrl ''dQw4w9WgXcQ'') # rest)
   \<and> exec odd_length_env (primary_command odd_length_env ''dQw4w9WgXcQ'') (files w0)
      = (prints odd_length_output, {})
   \<and> JSON_parse odd_length_env (stdout (prints odd_length_output))
      = Some (JObj [(''success'', JBool True),
                    (''transcript'', JObj [(''length'', JObj [(''toString'', JNum ''0'')])])])
   \<and> script_success odd_length_env (stdout (prints odd_length_output)) = None
   \<and> \<not> is_Returned (fst (method2 odd_length_env ''dQw4w9WgXcQ'' w0))
   \<and> fst (method2 odd_length_env ''dQw4w9WgXcQ'' w0) = Caught TypeError"
proof -
  have h1: "exec empty_script_env (primary_command empty_script_env ''dQw4w9WgXcQ'') (files w0)
      = (prints empty_transcript_output, {})
   \<and> exec empty_script_env (secondary_command empty_script_env ''dQw4w9WgXcQ'') {}
      = (prints empty_transcript_output, {})"
    by (simp add: empty_script_env_def failing_env_def w0_def)
  have e1: "exec_error (prints empty_transcript_output) = None"
    by (simp add: prints_def)
  have s1: "script_success empty_script_env (stdout (prints empty_transcript_output)) = Some (JStr [])"
    by (rule method2_success_criterion[THEN mp, OF h1, THEN conjunct2, THEN conjunct2, THEN conjunct2,
          THEN spec, THEN spec, THEN spec, THEN spec, THEN mp,
          of _ "JObj [(''success'', JBool True), (''transcript'', JStr [])]" "Some (JBool True)"])
       (simp add: empty_script_env_def prints_def)
  note T1 = method2_success_criterion[THEN mp, OF h1]
  have r1: "fst (method2 empty_script_env ''dQw4w9WgXcQ'' w0) = Returned (JStr [])"
    using T1[THEN conjunct1, THEN spec, of "JStr []"] e1 s1 by simp
  have c1: "calls (snd (method2 empty_script_env ''dQw4w9WgXcQ'' w0))
      = [Exec (primary_command empty_script_env ''dQw4w9WgXcQ'')]"
    using T1[THEN conjunct2, THEN conjunct1] e1 by (simp add: w0_def)
  let ?w = "snd (method1 two_errors_env ''dQw4w9WgXcQ'' w0)"
  have h2: "exec two_errors_env (primary_command two_errors_env ''dQw4w9WgXcQ'') (files ?w)
      = (dies ''venv python: exit 1'', {})
   \<and> exec two_errors_env (secondary_command two_errors_env ''dQw4w9WgXcQ'') {}
      = (dies ''python3: not found'', {})"
    by (simp add: method1_world eval_world)
  have n1: "\<not> is_Returned (fst (method1 two_errors_env ''dQw4w9WgXcQ'' w0))"
    by (simp add: eval_methods eval_world)
  have n2: "\<not> is_Returned (fst (method2 two_errors_env ''dQw4w9WgXcQ'' ?w))"
    by (simp add: eval_methods eval_world)
  have r2: "\<exists>rest. calls (snd (getTranscript two_errors_env ''dQw4w9WgXcQ'' w0))
         = calls (snd (method2 two_errors_env ''dQw4w9WgXcQ'' ?w)) @ HttpGet (videoUrl ''dQw4w9WgXcQ'') # rest"
    using method2_success_criterion[THEN mp, OF h2, THEN conjunct2, THEN conjunct2, THEN conjunct1,
        THEN spec, of w0] n1 n2
    by simp
  have h3: "exec odd_length_env (primary_command odd_length_env ''dQw4w9WgXcQ'') (files w0)
      = (prints odd_length_output, {})
   \<and> exec odd_length_env (secondary_command odd_length_env ''dQw4w9WgXcQ'') {}
      = (prints odd_length_output, {})"
    by (simp add: odd_length_env_def failing_env_def w0_def)
  have j3: "JSON_parse odd_length_env (stdout (prints odd_length_output))
      = Some (JObj [(''success'', JBool True),
                    (''transcript'', JObj [(''length'', JObj [(''toString'', JNum ''0'')])])])"
    by (simp add: odd_length_env_def prints_def)
  have e3: "exec_error (prints odd_length_output) = None"
    by (simp add: prints_def)
  have s3: "script_success odd_length_env (stdout (prints odd_length_output)) = None"
    by (simp add: script_success_def loggable_def j3)
  have r3: "\<not> is_Returned (fst (method2 odd_length_env ''dQw4w9WgXcQ'' w0))"
  proof
    assume "is_Returned (fst (method2 odd_length_env ''dQw4w9WgXcQ'' w0))"
    then obtain v where "fst (method2 odd_length_env ''dQw4w9WgXcQ'' w0) = Returned v"
      by (auto simp: is_Returned_def)
    with method2_success_criterion[THEN mp, OF h3, THEN conjunct1, THEN spec, of v] e3 s3
    show False by simp
  qed
  have r3': "fst (method2 odd_length_env ''dQw4w9WgXcQ'' w0) = Caught TypeError"
    by (simp add: eval_methods eval_world)
  show ?thesis
    using h1 e1 s1 r1 c1 n1 n2 r2 h3 j3 s3 r3 r3' by (intro conjI) simp_all
qed

text \<open>
  Against claim C7 as the specification states it: the script ends without error and
  reports success with an empty transcript; method 2 returns the empty text and
  \<^verbatim>\<open>getTranscript\<close> ends there, after two calls, without reaching method 3.
\<close>

theorem method2_empty_transcript_counterexample:
  "exec_error (fst (exec empty_script_env (primary_command empty_script_env ''dQw4w9WgXcQ'') {})) = None
   \<and> JSON_parse empty_script_env
        (stdout (fst (exec empty_script_env (primary_command empty_script_env ''dQw4w9WgXcQ'') {})))
       = Some (JObj [(''success'', JBool True), (''transcript'', JStr [])])
   \<and> fst (method2 empty_script_env ''dQw4w9WgXcQ'' (snd (method1 empty_script_env ''dQw4w9WgXcQ'' w0)))
       = Returned (JStr [])
   \<and> getTranscript empty_script_env ''dQw4w9WgXcQ'' w0
       = (Inr (JStr []),
          \<lparr>files = {},
             calls = [FetchTranscript ''dQw4w9WgXcQ'',
                      Exec (primary_command empty_script_env ''dQw4w9WgXcQ'')]\<rparr>)"
  by (simp add: eval_methods eval_world)




section \<open>Properties of processVideo\<close>

lemma extract_nonempty:
  assumes "extractVideoId url = Some videoId"
  shows "url \<noteq> []" "videoId \<noteq> []"
proof -
  from assms ex4 show "url \<noteq> []" by auto
  from extract_valid[OF assms] show "videoId \<noteq> []" by (auto simp: valid_id_def)
qed

lemma processVideo_world: "snd (processVideo env req_body w) = w"
  by (simp add: processVideo_def DEMO_MODE_def split: sum.splits option.splits json.splits)

lemma processVideo_env_independent:
  "now env' = now env \<Longrightarrow> fst (processVideo env' req_body w) = fst (processVideo env req_body w)"
  by (simp add: processVideo_def DEMO_MODE_def demoContent_def split: sum.splits option.splits json.splits)

text \<open>
  Claim C4. For a request whose \<^verbatim>\<open>youtubeUrl\<close> is a string from which an identifier is
  extracted, \<^verbatim>\<open>processVideo\<close> answers with status 200 and the demo content: the URL and the
  identifier of the request, the demonstration transcript and summary, the five key points,
  the ten quiz questions and the clock's reading. It leaves the world as it was: no cache
  lookup, no call of \<^verbatim>\<open>getTranscript\<close>'s collaborators, no content generation, no save.
  On every request the world is left untouched, and the response is the same under any two
  sets of collaborators that agree on the clock, so the code after the demo branch is
  unreachable.
\<close>

theorem processVideo_demo_short_circuit:
  "(get_prop req_body ''youtubeUrl'' = Inr (Some (JStr url)) \<and> extractVideoId url = Some videoId
      \<longrightarrow> processVideo env req_body w =
          (\<lparr>status = 200,
            body = Json (JObj
              [(''youtubeUrl'', JStr url),
               (''videoId'', JStr videoId),
               (''transcript'', JStr ''This is a demonstration transcript about Python programming fundamentals including variables, data types, functions, and object-oriented programming concepts.''),
               (''summary'', JStr ''This video covers essential Python programming concepts. It introduces core fundamentals like variables, data types (strings, integers, lists, dictionaries), control flow statements (if-else, loops), functions, and object-oriented programming principles. Perfect for beginners learning Python.''),
               (''keyPoints'', JArr
                  [JStr ''Python variables and data types'',
                   JStr ''Control flow with if-else and loops'',
                   JStr ''Defining and using functions'',
                   JStr ''Object-oriented programming basics'',
                   JStr ''Working with lists and dictionaries'']),
               (''quizQuestions'', JArr
                  [JObj [(''question'', JStr ''What is the correct way to declare a variable in Python?''),
                         (''options'', JArr [JStr ''var x = 5'', JStr ''int x = 5'', JStr ''x = 5'', JStr ''declare x = 5'']),
                         (''correctAnswer'', JStr ''x = 5'')],
                   JObj [(''question'', JStr ''Which of these is a mutable data type in Python?''),
                         (''options'', JArr [JStr ''tuple'', JStr ''string'', JStr ''list'', JStr ''integer'']),
                         (''correctAnswer'', JStr ''list'')],
                   JObj [(''question'', JStr ''What keyword is used to define a function in Python?''),
                         (''options'', JArr [JStr ''function'', JStr ''def'', JStr ''func'', JStr ''define'']),
                         (''correctAnswer'', JStr ''def'')],
                   JObj [(''question'', JStr ''Which method is used to add an element to a list?''),
                         (''options'', JArr [JStr ''add()'', JStr ''append()'', JStr ''insert()'', JStr ''push()'']),
                         (''correctAnswer'', JStr ''append()'')],
                   JObj [(''question'', JStr ''What is the output of: print(type([1, 2, 3]))?''),
                         (''options'', JArr [JStr ''<class 'tuple'>'', JStr ''<class 'list'>'', JStr ''<class 'array'>'', JStr ''<class 'dict'>'']),
                         (''correctAnswer'', JStr ''<class 'list'>'')],
                   JObj [(''question'', JStr ''How do you create a dictionary in Python?''),
                         (''options'', JArr [JStr ''dict = []'', JStr ''dict = ()'', JStr ''dict = {}'', JStr ''dict = <>'']),
                         (''correctAnswer'', JStr ''dict = {}'')],
                   JObj [(''question'', JStr ''What does the 'self' parameter represent in a class method?''),
                         (''options'', JArr [JStr ''The class itself'', JStr ''The method name'', JStr ''The instance of the class'', JStr ''A static variable'']),
                         (''correctAnswer'', JStr ''The instance of the class'')],
                   JObj [(''question'', JStr ''Which operator is used for exponentiation in Python?''),
                         (''options'', JArr [JStr ''^'', JStr ''**'', JStr ''pow'', JStr ''exp'']),
                         (''correctAnswer'', JStr ''**'')],
                   JObj [(''question'', JStr ''What will 'len([1, 2, 3, 4, 5])' return?''),
                         (''options'', JArr [JStr ''4'', JStr ''5'', JStr ''6'', JStr ''Error'']),
                         (''correctAnswer'', JStr ''5'')],
                   JObj [(''question'', JStr ''How do you start a comment in Python?''),
                         (''options'', JArr [JStr ''//'', JStr ''/*'', JStr ''#'', JStr ''--'']),
                         (''correctAnswer'', JStr ''#'')]]),
               (''createdAt'', JStr (now env))])\<rparr>, w))
   \<and> snd (processVideo env req_body w) = w
   \<and> (\<forall>env' :: 't env. now env' = now env
        \<longrightarrow> fst (processVideo env' req_body w) = fst (processVideo (env :: 't env) req_body w))"
proof (intro conjI impI allI)
  assume "get_prop req_body ''youtubeUrl'' = Inr (Some (JStr url)) \<and> extractVideoId url = Some videoId"
  then show "processVideo env req_body w =
          (\<lparr>status = 200,
            body = Json (JObj
              [(''youtubeUrl'', JStr url),
               (''videoId'', JStr videoId),
               (''transcript'', JStr ''This is a demonstration transcript about Python programming fundamentals including variables, data types, functions, and object-oriented programming concepts.''),
               (''summary'', JStr ''This video covers essential Python programming concepts. It introduces core fundamentals like variables, data types (strings, integers, lists, dictionaries), control flow statements (if-else, loops), functions, and object-oriented programming principles. Perfect for beginners learning Python.''),
               (''keyPoints'', JArr
                  [JStr ''Python variables and data types'',
                   JStr ''Control flow with if-else and loops'',
                   JStr ''Defining and using functions'',
                   JStr ''Object-oriented programming basics'',
                   JStr ''Working with lists and dictionaries'']),
               (''quizQuestions'', JArr
                  [JObj [(''question'', JStr ''What is the correct way to declare a variable in Python?''),
                         (''options'', JArr [JStr ''var x = 5'', JStr ''int x = 5'', JStr ''x = 5'', JStr ''declare x = 5'']),
                         (''correctAnswer'', JStr ''x = 5'')],
                   JObj [(''question'', JStr ''Which of these is a mutable data type in Python?''),
                         (''options'', JArr [JStr ''tuple'', JStr ''string'', JStr ''list'', JStr ''integer'']),
                         (''correctAnswer'', JStr ''list'')],
                   JObj [(''question'', JStr ''What keyword is used to define a function in Python?''),
                         (''options'', JArr [JStr ''function'', JStr ''def'', JStr ''func'', JStr ''define'']),
                         (''correctAnswer'', JStr ''def'')],
                   JObj [(''question'', JStr ''Which method is used to add an element to a list?''),
                         (''options'', JArr [JStr ''add()'', JStr ''append()'', JStr ''insert()'', JStr ''push()'']),
                         (''correctAnswer'', JStr ''append()'')],
                   JObj [(''question'', JStr ''What is the output of: print(type([1, 2, 3]))?''),
                         (''options'', JArr [JStr ''<class 'tuple'>'', JStr ''<class 'list'>'', JStr ''<class 'array'>'', JStr ''<class 'dict'>'']),
                         (''correctAnswer'', JStr ''<class 'list'>'')],
                   JObj [(''question'', JStr ''How do you create a dictionary in Python?''),
                         (''options'', JArr [JStr ''dict = []'', JStr ''dict = ()'', JStr ''dict = {}'', JStr ''dict = <>'']),
                         (''correctAnswer'', JStr ''dict = {}'')],
                   JObj [(''question'', JStr ''What does the 'self' parameter represent in a class method?''),
                         (''options'', JArr [JStr ''The class itself'', JStr ''The method name'', JStr ''The instance of the class'', JStr ''A static variable'']),
                         (''correctAnswer'', JStr ''The instance of the class'')],
                   JObj [(''question'', JStr ''Which operator is used for exponentiation in Python?''),
                         (''options'', JArr [JStr ''^'', JStr ''**'', JStr ''pow'', JStr ''exp'']),
                         (''correctAnswer'', JStr ''**'')],
                   JObj [(''question'', JStr ''What will 'len([1, 2, 3, 4, 5])' return?''),
                         (''options'', JArr [JStr ''4'', JStr ''5'', JStr ''6'', JStr ''Error'']),
                         (''correctAnswer'', JStr ''5'')],
                   JObj [(''question'', JStr ''How do you start a comment in Python?''),
                         (''options'', JArr [JStr ''//'', JStr ''/*'', JStr ''#'', JStr ''--'']),
                         (''correctAnswer'', JStr ''#'')]]),
               (''createdAt'', JStr (now env))])\<rparr>, w)"
    using extract_nonempty[of url videoId]
    by (simp add: processVideo_def DEMO_MODE_def send_def demoContent_def demoKeyPoints_def
          demoQuizQuestions_def quiz_def)
next
  show "snd (processVideo env req_body w) = w" by (rule processVideo_world)
next
  fix env' :: "'t env"
  assume "now env' = now env"
  then show "fst (processVideo env' req_body w) = fst (processVideo env req_body w)"
    by (rule processVideo_env_independent)
qed

theorem processVideo_demo_short_circuit_witness:
  "get_prop (JObj [(''youtubeUrl'', JStr ''https://www.youtube.com/watch?v=dQw4w9WgXcQ'')]) ''youtubeUrl''
      = Inr (Some (JStr ''https://www.youtube.com/watch?v=dQw4w9WgXcQ''))
   \<and> extractVideoId ''https://www.youtube.com/watch?v=dQw4w9WgXcQ'' = Some ''dQw4w9WgXcQ''
   \<and> processVideo silent_env (JObj [(''youtubeUrl'', JStr ''https://www.youtube.com/watch?v=dQw4w9WgXcQ'')]) w0 =
          (\<lparr>status = 200,
            body = Json (JObj
              [(''youtubeUrl'', JStr ''https://www.youtube.com/watch?v=dQw4w9WgXcQ''),
               (''videoId'', JStr ''dQw4w9WgXcQ''),
               (''transcript'', JStr ''This is a demonstration transcript about Python programming fundamentals including variables, data types, functions, and object-oriented programming concepts.''),
               (''summary'', JStr ''This video covers essential Python programming concepts. It introduces core fundamentals like variables, data types (strings, integers, lists, dictionaries), control flow statements (if-else, loops), functions, and object-oriented programming principles. Perfect for beginners learning Python.''),
               (''keyPoints'', JArr
                  [JStr ''Python variables and data types'',
                   JStr ''Control flow with if-else and loops'',
                   JStr ''Defining and using functions'',
                   JStr ''Object-oriented programming basics'',
                   JStr ''Working with lists and dictionaries'']),
               (''quizQuestions'', JArr
                  [JObj [(''question'', JStr ''What is the correct way to declare a variable in Python?''),
                         (''options'', JArr [JStr ''var x = 5'', JStr ''int x = 5'', JStr ''x = 5'', JStr ''declare x = 5'']),
                         (''correctAnswer'', JStr ''x = 5'')],
                   JObj [(''question'', JStr ''Which of these is a mutable data type in Python?''),
                         (''options'', JArr [JStr ''tuple'', JStr ''string'', JStr ''list'', JStr ''integer'']),
                         (''correctAnswer'', JStr ''list'')],
                   JObj [(''question'', JStr ''What keyword is used to define a function in Python?''),
                         (''options'', JArr [JStr ''function'', JStr ''def'', JStr ''func'', JStr ''define'']),
                         (''correctAnswer'', JStr ''def'')],
                   JObj [(''question'', JStr ''Which method is used to add an element to a list?''),
                         (''options'', JArr [JStr ''add()'', JStr ''append()'', JStr ''insert()'', JStr ''push()'']),
                         (''correctAnswer'', JStr ''append()'')],
                   JObj [(''question'', JStr ''What is the output of: print(type([1, 2, 3]))?''),
                         (''options'', JArr [JStr ''<class 'tuple'>'', JStr ''<class 'list'>'', JStr ''<class 'array'>'', JStr ''<class 'dict'>'']),
                         (''correctAnswer'', JStr ''<class 'list'>'')],
                   JObj [(''question'', JStr ''How do you create a dictionary in Python?''),
                         (''options'', JArr [JStr ''dict = []'', JStr ''dict = ()'', JStr ''dict = {}'', JStr ''dict = <>'']),
                         (''correctAnswer'', JStr ''dict = {}'')],
                   JObj [(''question'', JStr ''What does the 'self' parameter represent in a class method?''),
                         (''options'', JArr [JStr ''The class itself'', JStr ''The method name'', JStr ''The instance of the class'', JStr ''A static variable'']),
                         (''correctAnswer'', JStr ''The instance of the class'')],
                   JObj [(''question'', JStr ''Which operator is used for exponentiation in Python?''),
                         (''options'', JArr [JStr ''^'', JStr ''**'', JStr ''pow'', JStr ''exp'']),
                         (''correctAnswer'', JStr ''**'')],
                   JObj [(''question'', JStr ''What will 'len([1, 2, 3, 4, 5])' return?''),
                         (''options'', JArr [JStr ''4'', JStr ''5'', JStr ''6'', JStr ''Error'']),
                         (''correctAnswer'', JStr ''5'')],
                   JObj [(''question'', JStr ''How do you start a comment in Python?''),
                         (''options'', JArr [JStr ''//'', JStr ''/*'', JStr ''#'', JStr ''--'']),
                         (''correctAnswer'', JStr ''#'')]]),
               (''createdAt'', JStr ''2024-01-01T00:00:00.000Z'')])\<rparr>, w0)
   \<and> now failing_env = now silent_env
   \<and> fst (processVideo failing_env (JObj [(''youtubeUrl'', JStr ''https://www.youtube.com/watch?v=dQw4w9WgXcQ'')]) w0)
      = fst (processVideo silent_env (JObj [(''youtubeUrl'', JStr ''https://www.youtube.com/watch?v=dQw4w9WgXcQ'')]) w0)"
proof -
  let ?u = "''https://www.youtube.com/watch?v=dQw4w9WgXcQ''"
  let ?b = "JObj [(''youtubeUrl'', JStr ?u)]"
  note T = processVideo_demo_short_circuit[of ?b ?u "''dQw4w9WgXcQ''" silent_env w0]
  have h: "get_prop ?b ''youtubeUrl'' = Inr (Some (JStr ?u)) \<and> extractVideoId ?u = Some ''dQw4w9WgXcQ''"
    using ex1 by simp
  have n: "now failing_env = now silent_env" by (simp add: silent_env_def)
  have c: "now silent_env = ''2024-01-01T00:00:00.000Z''" by (simp add: silent_env_def failing_env_def)
  from T[THEN conjunct1, THEN mp, OF h] T[THEN conjunct2, THEN conjunct2, THEN spec, THEN mp, OF n] h n
  show ?thesis unfolding c by (intro conjI) simp_all
qed

end
